theory Spec2Isabelle
  imports Complex_Main
begin

section \<open>Tensors, errors and library layers\<close>

text \<open>
  The dialogue emotion networks of \<^verbatim>\<open>models.py\<close> compute on float tensors. The
  embedding takes a tensor as a nested list of reals, outermost axis first, and is meant
  for tensors of the shapes the docstrings of the source declare; the theorems state
  those shapes as hypotheses. Floating point rounding is outside the embedding. The one
  float effect the development follows is a division by zero, which yields NaN or an
  infinity in the source and the value \<open>None\<close> here.

  Exceptions of the source are values of the type \<open>error\<close>; a function that can raise
  returns \<open>error + 'a\<close>, with \<open>Inl\<close> for the exception. \<open>NaNValue\<close> is not an exception:
  it ends a computation of the embedding into which an undefined row has entered, since
  the embedding does not follow NaN through the layers.
\<close>

type_synonym vec = "real list"

datatype error =
  AssertionError | AttributeError | IndexError | RuntimeError | TypeError | NaNValue


definition bind_err :: "error + 'a \<Rightarrow> ('a \<Rightarrow> error + 'b) \<Rightarrow> error + 'b" where
  "bind_err m f = (case m of Inl e \<Rightarrow> Inl e | Inr x \<Rightarrow> f x)"

text \<open>Size of the second and of the third axis of a tensor (0 when there is no entry).\<close>

definition size1 :: "'a list list \<Rightarrow> nat" where
  "size1 X = (case X of [] \<Rightarrow> 0 | r # _ \<Rightarrow> length r)"

definition size2 :: "'a list list list \<Rightarrow> nat" where
  "size2 X = (case X of [] \<Rightarrow> 0 | r # _ \<Rightarrow> size1 r)"

text \<open>\<^verbatim>\<open>X.transpose(0, 1)\<close>: the first two axes exchanged.\<close>

definition transpose01 :: "'a list list \<Rightarrow> 'a list list" where
  "transpose01 X = map (\<lambda>b. map (\<lambda>Xt. Xt ! b) X) [0..<size1 X]"

section \<open>Attention modules\<close>

text \<open>
  Library operations on one row: \<^verbatim>\<open>F.softmax\<close> along an axis, the inner product that
  \<^verbatim>\<open>torch.bmm\<close> forms between a query and a history vector, and the product of a
  (1, seq_len) weight row with a (seq_len, d) history, which is the weighted sum of the
  history vectors.
\<close>

definition softmax :: "vec \<Rightarrow> vec" where
  "softmax xs = map (\<lambda>x. exp x / sum_list (map exp xs)) xs"

definition dot :: "vec \<Rightarrow> vec \<Rightarrow> real" where
  "dot x y = sum_list (map2 (*) x y)"

definition weighted_sum :: "nat \<Rightarrow> vec \<Rightarrow> vec list \<Rightarrow> vec" where
  "weighted_sum d w hs =
     foldr (\<lambda>(a, h) acc. map2 (+) (map ((*) a) h) acc) (zip w hs) (replicate d 0)"

text \<open>
  A linear layer \<^verbatim>\<open>nn.Linear(in_features, out_features, bias)\<close> is a function on
  vectors. Its weights are drawn by the library when the layer is constructed, so the
  constructors below take the library's constructor as the parameter \<open>Linear\<close>: its first
  argument is the name of the attribute that receives the layer, so that two layers of
  the same widths need not be the same function. The library's contract is that the
  output has width \<open>out_features\<close>.
\<close>

type_synonym linear = "string \<Rightarrow> nat \<Rightarrow> nat \<Rightarrow> bool \<Rightarrow> vec \<Rightarrow> vec"


text \<open>
  The tensor library raises a RuntimeError when the shapes of the operands of a layer or
  of a product do not fit. \<open>rows_of_width d x\<close> says that every row of \<open>x\<close> has the width
  \<open>d\<close>.
\<close>

definition rows_of_width :: "nat \<Rightarrow> vec list \<Rightarrow> bool" where
  "rows_of_width d x = list_all (\<lambda>r. length r = d) x"

subsection \<open>SimpleAttention\<close>




subsection \<open>MatchingAttention\<close>

record MatchingAttention =
  mem_dim :: nat
  cand_dim :: nat
  att_type :: string
  transform :: "(vec \<Rightarrow> vec) option"
  vector_prod :: "(vec \<Rightarrow> vec) option"

text \<open>
  \<^verbatim>\<open>MatchingAttention.__init__(mem_dim, cand_dim, alpha_dim=None, att_type='general')\<close>.
  The two assertions come first. The layers are then set by one \<^verbatim>\<open>if\<close> for
  \<^verbatim>\<open>'general'\<close> and an \<^verbatim>\<open>if\<close>/\<^verbatim>\<open>elif\<close> for \<^verbatim>\<open>'general2'\<close> and \<^verbatim>\<open>'concat'\<close>; for any other
  string no layer is set. An attribute that was never set is \<open>None\<close>.
\<close>

definition MatchingAttention_init ::
    "linear \<Rightarrow> nat \<Rightarrow> nat \<Rightarrow> nat option \<Rightarrow> string \<Rightarrow> error + MatchingAttention" where
  "MatchingAttention_init Linear mem cand alpha_dim att =
     (if \<not> (att \<noteq> ''concat'' \<or> alpha_dim \<noteq> None) then Inl AssertionError
      else if \<not> (att \<noteq> ''dot'' \<or> mem = cand) then Inl AssertionError
      else
        let m0 = \<lparr>mem_dim = mem, cand_dim = cand, att_type = att,
                  transform = None, vector_prod = None\<rparr>;
            m1 = (if att = ''general''
                  then m0\<lparr>transform := Some (Linear ''transform'' cand mem False)\<rparr> else m0)
        in Inr (if att = ''general2''
                then m1\<lparr>transform := Some (Linear ''transform'' cand mem True)\<rparr>
                else if att = ''concat''
                then m1\<lparr>transform := Some (Linear ''transform'' (cand + mem) (the alpha_dim) False),
                        vector_prod := Some (Linear ''vector_prod'' (the alpha_dim) 1 False)\<rparr>
                else m1))"

text \<open>
  The weights of one batch row in the masked variant \<^verbatim>\<open>'general2'\<close>: \<open>s\<close> are the scores
  of the row and \<open>m\<close> is its mask row. The source divides the masked weights by their sum
  without a test; where the sum is zero the row is NaN, which is \<open>None\<close> here.
\<close>

definition general2_row :: "vec \<Rightarrow> vec \<Rightarrow> vec list option" where
  "general2_row s m =
     (let alpha' = softmax (map2 (*) s m);
          alpha_masked = map2 (*) alpha' m;
          alpha_sum = sum_list alpha_masked
      in if alpha_sum = 0 then None else Some [map (\<lambda>a. a / alpha_sum) alpha_masked])"

text \<open>
  \<^verbatim>\<open>MatchingAttention.forward(M, x, mask=None)\<close>: \<open>M\<close> is (seq_len, batch, mem_dim), \<open>x\<close> is
  (batch, cand_dim) and the mask is (batch, seq_len). The result is the pooled vector and
  the weights (1, seq_len) of every batch row; a row is \<open>None\<close> where its weights are
  undefined. The last branch serves \<^verbatim>\<open>'concat'\<close> and every other string. The shapes
  that the library checks: \<open>x\<close> has a row for every batch row of \<open>M\<close>; the layer
  \<^verbatim>\<open>self.transform\<close> takes the width it was built for, \<open>cand_dim\<close>, or
  \<open>cand_dim + mem_dim\<close> in the last branch; the product with \<open>M\<close> needs vectors of the
  width of \<open>M\<close>; and the mask of the masked variant has the shape (batch, seq_len). (The
  \<^verbatim>\<open>print\<close> of the \<^verbatim>\<open>'general2'\<close> branch writes to the standard output and is left out.)
\<close>

definition MatchingAttention_forward ::
    "MatchingAttention \<Rightarrow> vec list list \<Rightarrow> vec list \<Rightarrow> vec list option
      \<Rightarrow> error + (vec option list \<times> vec list option list)" where
  "MatchingAttention_forward att M x msk =
     (let msk1 = (case msk of None \<Rightarrow> replicate (size1 M) (replicate (length M) 1)
                  | Some m \<Rightarrow> m);
          hist = transpose01 M;
          rows = [0..<size1 M]
      in case
          (if att_type att = ''dot'' then
             (if length x = size1 M \<and> rows_of_width (size2 M) x
              then Inr (map (\<lambda>b. Some [softmax (map (dot (x ! b)) (hist ! b))]) rows)
              else Inl RuntimeError)
           else if att_type att = ''general'' then
             (case transform att of
                None \<Rightarrow> Inl AttributeError
              | Some tr \<Rightarrow>
                  (if length x = size1 M \<and> rows_of_width (cand_dim att) x
                      \<and> size2 M = mem_dim att
                   then Inr (map (\<lambda>b. Some [softmax (map (dot (tr (x ! b))) (hist ! b))]) rows)
                   else Inl RuntimeError))
           else if att_type att = ''general2'' then
             (case transform att of
                None \<Rightarrow> Inl AttributeError
              | Some tr \<Rightarrow>
                  (if length x = size1 M \<and> rows_of_width (cand_dim att) x
                      \<and> size2 M = mem_dim att
                      \<and> length msk1 = size1 M \<and> rows_of_width (length M) msk1
                   then Inr (map (\<lambda>b. general2_row (map (dot (tr (x ! b))) (hist ! b)) (msk1 ! b))
                          rows)
                   else Inl RuntimeError))
           else
             (if length x \<noteq> size1 M then Inl RuntimeError
              else
                case transform att of
                  None \<Rightarrow> Inl AttributeError
                | Some tr \<Rightarrow>
                    (if \<not> list_all (\<lambda>r. size2 M + length r = cand_dim att + mem_dim att) x
                     then Inl RuntimeError
                     else
                       case vector_prod att of
                         None \<Rightarrow> Inl AttributeError
                       | Some vp \<Rightarrow>
                           Inr (map (\<lambda>b. Some (map softmax (transpose01
                                     (map (\<lambda>h. vp (map tanh (tr (h @ x ! b)))) (hist ! b)))))
                                  rows))))
        of
          Inl e \<Rightarrow> Inl e
        | Inr alpha \<Rightarrow>
            Inr (map2 (\<lambda>a h. map_option (\<lambda>w. weighted_sum (size2 M) (w ! 0) h) a) alpha hist,
                 alpha))"

text \<open>A constructor of linear layers for concrete evaluations: every weight is zero.\<close>

definition Linear_zero :: linear where
  "Linear_zero name i out bias v = replicate out 0"


section \<open>Dialogue step cell\<close>

text \<open>
  Helpers on tensors: zero tensors, an operation on three lists in step (\<^verbatim>\<open>zip\<close> of the
  source and the row-wise reading of the batched library operations), and the test that
  every row of an attention result is defined.
\<close>

definition zeros2 :: "nat \<Rightarrow> nat \<Rightarrow> vec list" where
  "zeros2 n d = replicate n (replicate d 0)"

definition zeros3 :: "nat \<Rightarrow> nat \<Rightarrow> nat \<Rightarrow> vec list list" where
  "zeros3 n p d = replicate n (zeros2 p d)"

definition map3 :: "('a \<Rightarrow> 'b \<Rightarrow> 'c \<Rightarrow> 'd) \<Rightarrow> 'a list \<Rightarrow> 'b list \<Rightarrow> 'c list \<Rightarrow> 'd list" where
  "map3 f xs ys zs = map (\<lambda>(x, y, z). f x y z) (zip xs (zip ys zs))"

definition defined_rows :: "'a option list \<Rightarrow> 'a list option" where
  "defined_rows rs = (if list_all (\<lambda>r. r \<noteq> None) rs then Some (map the rs) else None)"

text \<open>
  \<^verbatim>\<open>torch.argmax(qmask, 1)\<close>: for every row the index of its first maximal entry.
\<close>

fun argmax_from :: "real \<Rightarrow> nat \<Rightarrow> nat \<Rightarrow> vec \<Rightarrow> nat" where
  "argmax_from best bi i [] = bi"
| "argmax_from best bi i (v # vs) =
     (if best < v then argmax_from v i (Suc i) vs else argmax_from best bi (Suc i) vs)"

definition argmax :: "vec \<Rightarrow> nat" where
  "argmax r = (case r of [] \<Rightarrow> 0 | v # vs \<Rightarrow> argmax_from v 0 1 vs)"

definition argmax_rows :: "vec list \<Rightarrow> error + nat list" where
  "argmax_rows qmask = (if [] \<in> set qmask then Inl IndexError else Inr (map argmax qmask))"

text \<open>
  \<^verbatim>\<open>_select_parties(X, indices)\<close>: row \<open>i\<close> of the result is \<^verbatim>\<open>X[i][indices[i]]\<close>. An
  index outside its row raises, and so does \<^verbatim>\<open>torch.cat\<close> when there is no row.
\<close>

definition select_parties :: "'a list list \<Rightarrow> nat list \<Rightarrow> error + 'a list" where
  "select_parties X indices =
     (if \<not> list_all (\<lambda>(idx, j). idx < length j) (zip indices X) then Inl IndexError
      else if zip indices X = [] then Inl RuntimeError
      else Inr (map2 (\<lambda>idx j. j ! idx) indices X))"

text \<open>
  An index \<open>i\<close> into an axis of size \<open>n\<close>, as Python reads it: a negative index counts
  from the end, and an index outside \<open>-n..<n\<close> raises.
\<close>

definition py_index :: "nat \<Rightarrow> int \<Rightarrow> error + nat" where
  "py_index n i =
     (if 0 \<le> i \<and> i < int n then Inr (nat i)
      else if - int n \<le> i \<and> i < 0 then Inr (nat (int n + i))
      else Inl IndexError)"

text \<open>
  The merge \<^verbatim>\<open>ql_ * (1 - qmask_) + qs_ * qmask_\<close> of a state (batch, party, d) with its
  candidate, where \<^verbatim>\<open>qmask_ = qmask.unsqueeze(2)\<close> spreads the mask entry of a speaker
  over the row of that speaker. The tensor library raises a RuntimeError when the shapes
  of the operands of an elementwise operation do not fit; for a state and a mask of the
  declared shapes they fit when the state, the candidate and the mask agree in the batch
  and party axes and the state and the candidate agree in the last axis.
\<close>

definition same_shape :: "vec list list \<Rightarrow> vec list list \<Rightarrow> vec list \<Rightarrow> bool" where
  "same_shape ql qs qmask =
     (map (map length) ql = map (map length) qs \<and> map length ql = map length qmask)"

definition merge_rows ::
    "vec list list \<Rightarrow> vec list list \<Rightarrow> vec list \<Rightarrow> error + vec list list" where
  "merge_rows ql qs qmask =
     (if same_shape ql qs qmask
      then Inr (map3 (\<lambda>lrows srows mrow.
                  map3 (\<lambda>l s m. map2 (\<lambda>a c. a * (1 - m) + c * m) l s) lrows srows mrow)
                ql qs qmask)
      else Inl RuntimeError)"

text \<open>
  The emotion state is a tensor (batch, party, D_e) in party-attention mode and a tensor
  (batch, D_e) otherwise.
\<close>

datatype estate = E2 "vec list" | E3 "vec list list"

definition esize0 :: "estate \<Rightarrow> nat" where
  "esize0 e = (case e of E2 x \<Rightarrow> length x | E3 x \<Rightarrow> length x)"

text \<open>
  The cell. The recurrent layers \<^verbatim>\<open>nn.GRUCell\<close> are library functions of an input row
  and a hidden row. \<^verbatim>\<open>nn.Dropout\<close> draws a fresh random mask at every call in training
  mode and is the identity in evaluation mode: \<open>dropout2 k\<close> and \<open>dropout3 k\<close> are its effect
  at the call number \<open>k\<close> on a tensor of rank 2 and of rank 3. An attention module that
  \<^verbatim>\<open>__init__\<close> did not set is \<open>None\<close>.
\<close>

record DialogueRNNCell =
  D_m :: nat
  D_g :: nat
  D_p :: nat
  D_e :: nat
  party :: nat
  party_attention :: "string option"
  g_cell :: "vec \<Rightarrow> vec \<Rightarrow> vec"
  p_cell :: "vec \<Rightarrow> vec \<Rightarrow> vec"
  e_cell :: "vec \<Rightarrow> vec \<Rightarrow> vec"
  dropout2 :: "nat \<Rightarrow> vec list \<Rightarrow> vec list"
  dropout3 :: "nat \<Rightarrow> vec list list \<Rightarrow> vec list list"
  attention :: "MatchingAttention option"
  attention_p1 :: "MatchingAttention option"
  attention_p2 :: "MatchingAttention option"

text \<open>
  \<^verbatim>\<open>DialogueRNNCell.__init__\<close>: the attention modules are built when the variant
  given for them is not \<^verbatim>\<open>None\<close>. \<open>GRUCell\<close> is the library's constructor of a recurrent
  layer from the name of its attribute and its input and hidden widths, and \<open>dr2\<close>, \<open>dr3\<close>
  are the dropout layer.
\<close>

definition DialogueRNNCell_init ::
    "linear \<Rightarrow> (string \<Rightarrow> nat \<Rightarrow> nat \<Rightarrow> vec \<Rightarrow> vec \<Rightarrow> vec) \<Rightarrow> (nat \<Rightarrow> vec list \<Rightarrow> vec list)
      \<Rightarrow> (nat \<Rightarrow> vec list list \<Rightarrow> vec list list)
      \<Rightarrow> nat \<Rightarrow> nat \<Rightarrow> nat \<Rightarrow> nat \<Rightarrow> nat \<Rightarrow> string option \<Rightarrow> string option \<Rightarrow> nat
      \<Rightarrow> error + DialogueRNNCell" where
  "DialogueRNNCell_init Linear GRUCell dr2 dr3 dm dg dp de pty context_attention pa da =
     (let c0 = \<lparr>D_m = dm, D_g = dg, D_p = dp, D_e = de, party = pty, party_attention = pa,
                g_cell = GRUCell ''g_cell'' (dm + dp + de) dg,
                p_cell = GRUCell ''p_cell'' (dm + dg + de) dp,
                e_cell = (if pa = None then GRUCell ''e_cell'' dp de
                          else GRUCell ''e_cell'' (dp + dp + dg) de),
                dropout2 = dr2, dropout3 = dr3,
                attention = None, attention_p1 = None, attention_p2 = None\<rparr>
      in case (case context_attention of
                 None \<Rightarrow> Inr c0
               | Some ca \<Rightarrow>
                   (case MatchingAttention_init (\<lambda>n. Linear (''attention.'' @ n)) dg dm (Some da) ca of
                      Inl e \<Rightarrow> Inl e
                    | Inr a \<Rightarrow> Inr (c0\<lparr>attention := Some a\<rparr>)))
         of
           Inl e \<Rightarrow> Inl e
         | Inr c1 \<Rightarrow>
             (case pa of
                None \<Rightarrow> Inr c1
              | Some pat \<Rightarrow>
                  (case MatchingAttention_init (\<lambda>n. Linear (''attention_p1.'' @ n))
                          dp dm (Some da) pat of
                     Inl e \<Rightarrow> Inl e
                   | Inr a1 \<Rightarrow>
                       (case MatchingAttention_init (\<lambda>n. Linear (''attention_p2.'' @ n))
                               dp dm (Some da) pat of
                          Inl e \<Rightarrow> Inl e
                        | Inr a2 \<Rightarrow>
                            Inr (c1\<lparr>attention_p1 := Some a1, attention_p2 := Some a2\<rparr>)))))"

text \<open>
  The first lines of \<^verbatim>\<open>DialogueRNNCell.forward\<close>: a state that comes in empty, as it
  does at the first step of a sequence, is replaced by zeros. \<open>truthy\<close> is the test
  \<^verbatim>\<open>if self.party_attention:\<close>, which fails for \<^verbatim>\<open>None\<close> and for the empty string.
\<close>

definition truthy :: "string option \<Rightarrow> bool" where
  "truthy pa = (pa \<noteq> None \<and> pa \<noteq> Some [])"

definition e0_init :: "DialogueRNNCell \<Rightarrow> vec list \<Rightarrow> estate \<Rightarrow> estate" where
  "e0_init c qmask e0 =
     (if truthy (party_attention c)
      then (if esize0 e0 = 0 then E3 (zeros3 (length qmask) (party c) (D_e c)) else e0)
      else (if esize0 e0 = 0 then E2 (zeros2 (length qmask) (D_e c)) else e0))"

definition q0_init :: "DialogueRNNCell \<Rightarrow> vec list \<Rightarrow> vec list list \<Rightarrow> vec list list" where
  "q0_init c qmask q0 =
     (if length q0 = 0 then zeros3 (length qmask) (party c) (D_p c) else q0)"

text \<open>
  A call \<^verbatim>\<open>self.attention(M, x)\<close> of an attention module that the cell holds: the
  attribute must have been set, and the rows of the result are taken as defined.
\<close>

definition attend ::
    "MatchingAttention option \<Rightarrow> vec list list \<Rightarrow> vec list \<Rightarrow> error + (vec list \<times> vec list list)" where
  "attend att M x =
     (case att of
        None \<Rightarrow> Inl AttributeError
      | Some a \<Rightarrow>
          (case MatchingAttention_forward a M x None of
             Inl e \<Rightarrow> Inl e
           | Inr (pool, alpha) \<Rightarrow>
               (case (defined_rows pool, defined_rows alpha) of
                  (Some pl, Some al) \<Rightarrow> Inr (pl, al)
                | _ \<Rightarrow> Inl NaNValue)))"

text \<open>\<^verbatim>\<open>torch.cat([A, B, C], dim=1)\<close> of three tensors (batch, d).\<close>

definition cat3 :: "vec list \<Rightarrow> vec list \<Rightarrow> vec list \<Rightarrow> vec list" where
  "cat3 A B C = map3 (\<lambda>a b c. a @ b @ c) A B C"

text \<open>
  The loop over the speakers in the party emotion section.
  \<^verbatim>\<open>q_hist[:, :, i, :]\<close> is the history (t, batch, D_p) of the speaker \<open>i\<close>; the index
  \<^verbatim>\<open>1 - p\<close> is read as Python reads it. The result holds, for every \<open>p\<close>, the rows
  \<^verbatim>\<open>Q[:, p, :]\<close> and \<^verbatim>\<open>Qp[:, p, :]\<close>.
\<close>

definition party_pool ::
    "MatchingAttention option \<Rightarrow> vec list list list \<Rightarrow> int \<Rightarrow> vec list \<Rightarrow> error + vec list" where
  "party_pool att q_hist i U =
     (case att of
        None \<Rightarrow> Inl AttributeError
      | Some a \<Rightarrow>
          bind_err (py_index (size2 q_hist) i) (\<lambda>j.
          bind_err (attend att (map (map (\<lambda>rows. rows ! j)) q_hist) U) (\<lambda>(pool, alpha).
          Inr pool)))"

fun party_loop ::
    "DialogueRNNCell \<Rightarrow> vec list list list \<Rightarrow> vec list \<Rightarrow> nat list
      \<Rightarrow> error + (vec list \<times> vec list) list" where
  "party_loop c q_hist U [] = Inr []"
| "party_loop c q_hist U (p # ps) =
     bind_err (party_pool (attention_p1 c) q_hist (1 - int p) U) (\<lambda>Q1.
     bind_err (party_pool (attention_p2 c) q_hist (int p) U) (\<lambda>Qp1.
     bind_err (party_loop c q_hist U ps) (\<lambda>r.
     Inr ((Q1, Qp1) # r))))"

text \<open>
  \<^verbatim>\<open>DialogueRNNCell.forward(U, qmask, g_hist, q0, q_hist, e0)\<close>. \<open>k\<close> is the number of
  the step, which numbers the three calls of the dropout layer. The names \<open>g'\<close>, \<open>q'\<close>,
  \<open>e'\<close>, \<open>gc'\<close>, \<open>qs'\<close>, \<open>es'\<close> stand for \<^verbatim>\<open>g_\<close>, \<^verbatim>\<open>q_\<close>, \<^verbatim>\<open>e_\<close>, \<^verbatim>\<open>gc_\<close>, \<^verbatim>\<open>qs_\<close>, \<^verbatim>\<open>es_\<close>;
  \<open>g_hist'\<close>, \<open>q_hist'\<close>, \<open>e0'\<close>, \<open>q0'\<close> are the values of \<^verbatim>\<open>g_hist\<close>, \<^verbatim>\<open>q_hist\<close>, \<^verbatim>\<open>e0\<close>,
  \<^verbatim>\<open>q0\<close> after their reassignment. The party emotion section is entered by the test
  \<^verbatim>\<open>is not None\<close>, the selection of the emotion rows by \<open>truthy\<close>. With the empty
  string the emotion state has rank 2 in the party emotion section, where the recurrent
  layer needs the rows of every speaker; the embedding ends that case with a
  RuntimeError. \<^verbatim>\<open>detach\<close> changes no value.
\<close>

definition DialogueRNNCell_forward ::
    "DialogueRNNCell \<Rightarrow> nat \<Rightarrow> vec list \<Rightarrow> vec list \<Rightarrow> vec list list \<Rightarrow> vec list list
      \<Rightarrow> vec list list list \<Rightarrow> estate
      \<Rightarrow> error + (vec list \<times> vec list list \<times> estate \<times> vec list \<times> vec list list option)" where
  "DialogueRNNCell_forward c k U qmask g_hist q0 q_hist e0 =
     (let e0' = e0_init c qmask e0;
          q0' = q0_init c qmask q0
      in
      bind_err (argmax_rows qmask) (\<lambda>qm_idx.
      bind_err (select_parties q0' qm_idx) (\<lambda>q0_sel.
      bind_err (if truthy (party_attention c)
                then (case e0' of E3 x \<Rightarrow> select_parties x qm_idx | E2 x \<Rightarrow> Inl RuntimeError)
                else (case e0' of E2 x \<Rightarrow> Inr x | E3 x \<Rightarrow> Inl RuntimeError)) (\<lambda>e0_sel.
      let g' = dropout2 c (3 * k)
                 (if length g_hist = 0
                  then map (\<lambda>x. g_cell c x (replicate (D_g c) 0)) (cat3 U q0_sel e0_sel)
                  else map2 (g_cell c) (cat3 U q0_sel e0_sel) (last g_hist));
          g_hist' = g_hist @ [g']
      in
      bind_err (if length g_hist' = 0 then Inr (zeros2 (length U) (D_g c), None)
                else bind_err (attend (attention c) g_hist' U) (\<lambda>(gc', alpha).
                       Inr (gc', Some alpha))) (\<lambda>(gc', alpha).
      let qs' = dropout3 c (3 * k + 1)
                  (map2 (\<lambda>x qrows. map (p_cell c x) qrows) (cat3 U gc' e0_sel) q0')
      in
      bind_err (merge_rows q0' qs' qmask) (\<lambda>q'.
      let q_hist' = q_hist @ [q']
      in
      bind_err
        (if party_attention c \<noteq> None then
           bind_err (if length q_hist' = 0
                     then Inr (replicate (party c)
                            (zeros2 (length U) (D_p c), zeros2 (length U) (D_p c)))
                     else party_loop c q_hist' U [0..<party c]) (\<lambda>r.
           case e0' of
             E3 x \<Rightarrow>
               (let U_Q = map (\<lambda>b. map (\<lambda>(Q1, Qp1). Q1 ! b @ Qp1 ! b @ g' ! b) r) [0..<length U];
                    es' = dropout3 c (3 * k + 2) (map2 (\<lambda>xs erows. map2 (e_cell c) xs erows) U_Q x)
                in bind_err (merge_rows x es' qmask) (\<lambda>e'. Inr (E3 e')))
           | E2 x \<Rightarrow> Inl RuntimeError)
         else
           bind_err (select_parties q' qm_idx) (\<lambda>q_sel.
           Inr (E2 (dropout2 c (3 * k + 2) (map2 (e_cell c) q_sel e0_sel))))) (\<lambda>e'.
      bind_err (if truthy (party_attention c)
                then (case e' of E3 x \<Rightarrow> select_parties x qm_idx | E2 x \<Rightarrow> Inl RuntimeError)
                else (case e' of E2 x \<Rightarrow> Inr x | E3 x \<Rightarrow> Inl RuntimeError)) (\<lambda>e_out.
      Inr (g', q', e', e_out, alpha)))))))))"

section \<open>Dialogue sequence runner\<close>

text \<open>
  \<^verbatim>\<open>DialogueRNN.forward(U, qmask)\<close>. The loop passes to the cell the party state and the
  emotion state of the step before. It passes \<^verbatim>\<open>g_hist\<close> and \<^verbatim>\<open>q_hist\<close> as they were
  initialised, empty, at every step: the source assigns neither of them in the loop.
  The loop collects the three lists \<^verbatim>\<open>e\<close>, \<^verbatim>\<open>c\<close> and \<^verbatim>\<open>alpha\<close>; \<^verbatim>\<open>torch.stack\<close> raises
  on an empty list.
\<close>

fun DialogueRNN_loop ::
    "DialogueRNNCell \<Rightarrow> nat \<Rightarrow> (vec list \<times> vec list) list \<Rightarrow> vec list list \<Rightarrow> estate
      \<Rightarrow> error + (vec list list \<times> vec list list \<times> vec list list)" where
  "DialogueRNN_loop cell k [] q e = Inr ([], [], [])"
| "DialogueRNN_loop cell k ((u, qm) # rest) q e =
     bind_err (DialogueRNNCell_forward cell k u qm [] q [] e) (\<lambda>(g', q', e', c', alpha').
     bind_err (if party_attention cell \<noteq> None
               then bind_err (argmax_rows qm) (\<lambda>qm_idx.
                      case e' of E3 x \<Rightarrow> select_parties x qm_idx | E2 x \<Rightarrow> Inl RuntimeError)
               else (case e' of E2 x \<Rightarrow> Inr x | E3 x \<Rightarrow> Inl RuntimeError)) (\<lambda>e_item.
     bind_err (DialogueRNN_loop cell (Suc k) rest q' e') (\<lambda>(es, cs, alphas).
     Inr (e_item # es, c' # cs,
          (case alpha' of None \<Rightarrow> alphas | Some a \<Rightarrow> map (\<lambda>w. w ! 0) a # alphas)))))"

definition DialogueRNN_forward ::
    "DialogueRNNCell \<Rightarrow> vec list list \<Rightarrow> vec list list
      \<Rightarrow> error + (vec list list \<times> vec list list \<times> vec list list)" where
  "DialogueRNN_forward cell U qmask =
     bind_err (DialogueRNN_loop cell 0 (zip U qmask) [] (E2 [])) (\<lambda>(es, cs, alphas).
     if es = [] then Inl RuntimeError else Inr (es, cs, alphas))"

text \<open>
  The global context vectors \<^verbatim>\<open>g_\<close> that the cell returns at the steps of the same loop.
  The source does not collect them; the definition serves to compare them with what the
  loop returns.
\<close>

fun DialogueRNN_contexts ::
    "DialogueRNNCell \<Rightarrow> nat \<Rightarrow> (vec list \<times> vec list) list \<Rightarrow> vec list list \<Rightarrow> estate
      \<Rightarrow> error + vec list list" where
  "DialogueRNN_contexts cell k [] q e = Inr []"
| "DialogueRNN_contexts cell k ((u, qm) # rest) q e =
     bind_err (DialogueRNNCell_forward cell k u qm [] q [] e) (\<lambda>(g', q', e', c', alpha').
     bind_err (DialogueRNN_contexts cell (Suc k) rest q' e') (\<lambda>gs.
     Inr (g' # gs)))"

text \<open>
  Properties of the inputs and of the state: a speaker mask row is one-hot when its
  entries are 0 or 1 and sum to 1; an emotion state is \<open>wide d\<close> when every row of it has
  the width \<open>d\<close>. The contract of the library for the layers of the cell that the width
  of the emotion output depends on: the recurrent layer returns a row of the width of the
  hidden row, and the dropout layer keeps the widths of the rows.
\<close>

definition one_hot :: "vec \<Rightarrow> bool" where
  "one_hot r = (list_all (\<lambda>v. v = 0 \<or> v = 1) r \<and> sum_list r = 1)"

definition wide :: "nat \<Rightarrow> estate \<Rightarrow> bool" where
  "wide d e =
     (case e of
        E2 x \<Rightarrow> list_all (\<lambda>r. length r = d) x
      | E3 x \<Rightarrow> list_all (list_all (\<lambda>r. length r = d)) x)"

definition emotion_layers_contract :: "DialogueRNNCell \<Rightarrow> bool" where
  "emotion_layers_contract c =
     ((\<forall>x h. length (e_cell c x h) = length h)
      \<and> (\<forall>k X. map length (dropout2 c k X) = map length X))"

text \<open>
  Layers and cells for concrete evaluations. \<open>GRUCell_half\<close> is the recurrent layer
  \<^verbatim>\<open>nn.GRUCell\<close> whose weights are zero and whose biases are zero but for the input
  bias of the candidate, which is artanh (1 / 2): its reset and update gates are 1 / 2,
  its candidate is 1 / 2, and the new hidden row is \<open>(1 - 1 / 2) * 1 / 2 + 1 / 2 * h\<close>.
  \<open>no_dropout\<close> is a dropout layer in evaluation mode. The two cells have the widths
  \<open>D_m = D_g = D_p = 1\<close> and \<open>D_e = 2\<close> for two speakers, as \<^verbatim>\<open>DialogueRNNCell.__init__\<close>
  builds them from these layers: one without party attention and one with the variant
  \<^verbatim>\<open>'general'\<close>.
\<close>

definition GRUCell_half :: "string \<Rightarrow> nat \<Rightarrow> nat \<Rightarrow> vec \<Rightarrow> vec \<Rightarrow> vec" where
  "GRUCell_half name i hsz x h = map (\<lambda>v. 1 / 4 + v / 2) h"

definition no_dropout :: "nat \<Rightarrow> 'a \<Rightarrow> 'a" where
  "no_dropout k x = x"

definition general_zero :: "string \<Rightarrow> MatchingAttention" where
  "general_zero name =
     \<lparr>mem_dim = 1, cand_dim = 1, att_type = ''general'',
      transform = Some (Linear_zero (name @ ''.transform'') 1 1 False), vector_prod = None\<rparr>"

definition cell_plain :: DialogueRNNCell where
  "cell_plain =
     \<lparr>D_m = 1, D_g = 1, D_p = 1, D_e = 2, party = 2, party_attention = None,
      g_cell = GRUCell_half ''g_cell'' 4 1, p_cell = GRUCell_half ''p_cell'' 4 1,
      e_cell = GRUCell_half ''e_cell'' 1 2, dropout2 = no_dropout, dropout3 = no_dropout,
      attention = Some (general_zero ''attention''),
      attention_p1 = None, attention_p2 = None\<rparr>"

definition cell_party :: DialogueRNNCell where
  "cell_party =
     \<lparr>D_m = 1, D_g = 1, D_p = 1, D_e = 2, party = 2, party_attention = Some ''general'',
      g_cell = GRUCell_half ''g_cell'' 4 1, p_cell = GRUCell_half ''p_cell'' 4 1,
      e_cell = GRUCell_half ''e_cell'' 3 2, dropout2 = no_dropout, dropout3 = no_dropout,
      attention = Some (general_zero ''attention''),
      attention_p1 = Some (general_zero ''attention_p1''),
      attention_p2 = Some (general_zero ''attention_p2'')\<rparr>"

section \<open>Length-respecting reversal\<close>

text \<open>
  \<^verbatim>\<open>torch.sum(mask, 1).int()\<close>: the sum of every mask row, converted to an integer by
  truncation toward zero.
\<close>

definition trunc_int :: "real \<Rightarrow> int" where
  "trunc_int r = (if 0 \<le> r then \<lfloor>r\<rfloor> else \<lceil>r\<rceil>)"

definition mask_sum :: "vec list \<Rightarrow> int list" where
  "mask_sum msk = map (\<lambda>row. trunc_int (sum_list row)) msk"

text \<open>The Python slice \<^verbatim>\<open>x[:c]\<close>; a negative \<open>c\<close> counts from the end.\<close>

definition slice_to :: "int \<Rightarrow> 'a list \<Rightarrow> 'a list" where
  "slice_to c xs = (if 0 \<le> c then take (nat c) xs else take (length xs - nat (- c)) xs)"

text \<open>
  \<^verbatim>\<open>pad_sequence(sequences)\<close> of the tensor library: the sequences, of shapes
  (L_b, dim), are laid side by side in a tensor of shape (max L_b, batch, dim) and the
  missing entries are filled with zeros. It raises on an empty list. A list does not
  carry the width \<open>dim\<close> of an empty sequence, so the embedding passes it as \<open>d\<close>.
\<close>

definition max_len :: "'a list list \<Rightarrow> nat" where
  "max_len xfs = foldr max (map length xfs) 0"

definition pad_sequence :: "nat \<Rightarrow> vec list list \<Rightarrow> error + vec list list" where
  "pad_sequence d xfs =
     (if xfs = [] then Inl RuntimeError
      else Inr (map (\<lambda>t. map (\<lambda>xf. if t < length xf then xf ! t else replicate d 0) xfs)
                  [0..<max_len xfs]))"

text \<open>
  \<^verbatim>\<open>_reverse_seq(X, mask)\<close>, with \<open>X\<close> of shape (seq_len, batch, dim) and the mask of
  shape (batch, seq_len): every batch row is cut to its valid length, flipped, and the
  rows are padded again. \<open>X'\<close> stands for \<^verbatim>\<open>X_\<close>.
\<close>

definition reverse_seq :: "vec list list \<Rightarrow> vec list \<Rightarrow> error + vec list list" where
  "reverse_seq X msk =
     (let X' = transpose01 X;
          xfs = map (\<lambda>(x, c). rev (slice_to c x)) (zip X' (mask_sum msk))
      in pad_sequence (size2 X) xfs)"

section \<open>Bidirectional emotion model\<close>

text \<open>
  A sequence runner \<^verbatim>\<open>DialogueRNN\<close> is given by its cell. The model holds the two
  runners, the dropout layers (\<open>dropout_rec k\<close> is the effect of \<^verbatim>\<open>self.dropout_rec\<close> at
  its call number \<open>k\<close>), the three linear layers of the classification head and the
  attention module \<^verbatim>\<open>self.matchatt\<close>.
\<close>

record Model =
  model_party_attention :: "string option"
  dialog_rnn_f :: DialogueRNNCell
  dialog_rnn_b :: DialogueRNNCell
  dropout_rec :: "nat \<Rightarrow> vec list list \<Rightarrow> vec list list"
  linear1 :: "vec \<Rightarrow> vec"
  linear2 :: "vec \<Rightarrow> vec"
  smax_fc :: "vec \<Rightarrow> vec"
  dropout :: "vec list list \<Rightarrow> vec list list"
  matchatt :: MatchingAttention

text \<open>
  \<^verbatim>\<open>Model.__init__\<close>. \<open>Dropout2\<close> and \<open>Dropout3\<close> are the library's dropout layer by the
  name of its attribute, on tensors of rank 2 and 3.
\<close>

definition Model_init ::
    "linear \<Rightarrow> (string \<Rightarrow> nat \<Rightarrow> nat \<Rightarrow> vec \<Rightarrow> vec \<Rightarrow> vec)
      \<Rightarrow> (string \<Rightarrow> nat \<Rightarrow> vec list \<Rightarrow> vec list)
      \<Rightarrow> (string \<Rightarrow> nat \<Rightarrow> vec list list \<Rightarrow> vec list list)
      \<Rightarrow> nat \<Rightarrow> nat \<Rightarrow> nat \<Rightarrow> nat \<Rightarrow> nat \<Rightarrow> nat \<Rightarrow> nat \<Rightarrow> string option \<Rightarrow> string option \<Rightarrow> nat
      \<Rightarrow> error + Model" where
  "Model_init Linear GRUCell Dropout2 Dropout3 dh dg dp de dy pty n_classes
       context_attention pa da =
     bind_err (DialogueRNNCell_init
                 (\<lambda>n. Linear (''dialog_rnn_f.dialogue_cell.'' @ n))
                 (\<lambda>n. GRUCell (''dialog_rnn_f.dialogue_cell.'' @ n))
                 (Dropout2 ''dialog_rnn_f.dialogue_cell.dropout'')
                 (Dropout3 ''dialog_rnn_f.dialogue_cell.dropout'')
                 dh dg dp de pty context_attention pa da) (\<lambda>f.
     bind_err (DialogueRNNCell_init
                 (\<lambda>n. Linear (''dialog_rnn_b.dialogue_cell.'' @ n))
                 (\<lambda>n. GRUCell (''dialog_rnn_b.dialogue_cell.'' @ n))
                 (Dropout2 ''dialog_rnn_b.dialogue_cell.dropout'')
                 (Dropout3 ''dialog_rnn_b.dialogue_cell.dropout'')
                 dh dg dp de pty context_attention pa da) (\<lambda>b.
     bind_err (MatchingAttention_init (\<lambda>n. Linear (''matchatt.'' @ n)) de de None ''general2'')
       (\<lambda>ma.
     Inr \<lparr>model_party_attention = pa, dialog_rnn_f = f, dialog_rnn_b = b,
          dropout_rec = Dropout3 ''dropout_rec'',
          linear1 = Linear ''linear1'' (2 * de) dy True,
          linear2 = Linear ''linear2'' dy (dy div 2) True,
          smax_fc = Linear ''smax_fc'' (dy div 2) n_classes True,
          dropout = Dropout3 ''dropout'' 0,
          matchatt = ma\<rparr>)))"

text \<open>\<^verbatim>\<open>torch.cat([A, B], dim=-1)\<close> of two tensors (seq_len, batch, d).\<close>

definition cat_last :: "vec list list \<Rightarrow> vec list list \<Rightarrow> vec list list" where
  "cat_last A B = map2 (map2 (@)) A B"

text \<open>A loop that collects the results of its steps and stops at the first exception.\<close>

fun map_err :: "('a \<Rightarrow> error + 'b) \<Rightarrow> 'a list \<Rightarrow> error + 'b list" where
  "map_err f [] = Inr []"
| "map_err f (x # xs) =
     bind_err (f x) (\<lambda>y. bind_err (map_err f xs) (\<lambda>ys. Inr (y # ys)))"

text \<open>
  \<^verbatim>\<open>Model.forward(U, qmask, umask=None, att2=False)\<close>, in four parts. The first part
  runs the two runners and returns the concatenated emotion vectors \<^verbatim>\<open>emotions\<close> and
  the second result \<^verbatim>\<open>c\<close>; \<^verbatim>\<open>_reverse_seq\<close> needs the mask, so a call without it
  raises a TypeError.
\<close>

definition Model_emotions ::
    "Model \<Rightarrow> vec list list \<Rightarrow> vec list list \<Rightarrow> vec list option
      \<Rightarrow> error + (vec list list \<times> vec list list)" where
  "Model_emotions m U qmask umask =
     bind_err (DialogueRNN_forward (dialog_rnn_f m) U qmask) (\<lambda>(emotions_f, c_f, alpha_f).
     case umask of
       None \<Rightarrow> Inl TypeError
     | Some um \<Rightarrow>
         bind_err (reverse_seq U um) (\<lambda>rev_U.
         bind_err (reverse_seq qmask um) (\<lambda>rev_qmask.
         bind_err (DialogueRNN_forward (dialog_rnn_b m) rev_U rev_qmask)
           (\<lambda>(emotions_b, c_b, alpha_b).
         bind_err (reverse_seq emotions_b um) (\<lambda>emotions_b'.
         Inr (cat_last (dropout_rec m 0 emotions_f) (dropout_rec m 1 emotions_b'),
              cat_last c_f c_b))))))"

text \<open>
  The second part is the loop of the extra attention pass: every \<open>t\<close> of \<^verbatim>\<open>emotions\<close>
  is the query of \<^verbatim>\<open>self.matchatt\<close> over all of \<^verbatim>\<open>emotions\<close>, with the mask, and the
  pooled vectors are collected.
\<close>

definition Model_att_emotions ::
    "Model \<Rightarrow> vec list list \<Rightarrow> vec list option \<Rightarrow> error + vec list list" where
  "Model_att_emotions m emotions umask =
     map_err (\<lambda>t. bind_err (MatchingAttention_forward (matchatt m) emotions t umask)
                    (\<lambda>(pool, alpha).
                       case defined_rows pool of None \<Rightarrow> Inl NaNValue | Some pl \<Rightarrow> Inr pl))
       emotions"

text \<open>
  The third part is the choice of the tensor that the classification head receives, and
  the fourth part is the head: two linear layers with \<^verbatim>\<open>F.relu\<close>, dropout, the last
  linear layer and \<^verbatim>\<open>F.log_softmax\<close> along the class axis.
\<close>

definition Model_hidden_input ::
    "Model \<Rightarrow> vec list list \<Rightarrow> vec list list \<Rightarrow> vec list option \<Rightarrow> bool
      \<Rightarrow> error + (vec list list \<times> vec list list)" where
  "Model_hidden_input m U qmask umask att2 =
     bind_err (Model_emotions m U qmask umask) (\<lambda>(emotions, c).
     bind_err (if att2 \<and> model_party_attention m = Some ''simple''
               then Model_att_emotions m emotions umask
               else Inr emotions) (\<lambda>x.
     Inr (x, c)))"

definition relu :: "real \<Rightarrow> real" where
  "relu v = max 0 v"

definition log_softmax :: "vec \<Rightarrow> vec" where
  "log_softmax xs = map (\<lambda>x. x - ln (sum_list (map exp xs))) xs"

definition Model_head :: "Model \<Rightarrow> vec list list \<Rightarrow> vec list list" where
  "Model_head m x =
     map (map (\<lambda>h. log_softmax (smax_fc m h)))
       (dropout m (map (map (\<lambda>v. map relu (linear2 m (map relu (linear1 m v))))) x))"

definition Model_forward ::
    "Model \<Rightarrow> vec list list \<Rightarrow> vec list list \<Rightarrow> vec list option \<Rightarrow> bool
      \<Rightarrow> error + (vec list list \<times> vec list list)" where
  "Model_forward m U qmask umask att2 =
     bind_err (Model_hidden_input m U qmask umask att2) (\<lambda>(x, c).
     Inr (Model_head m x, c))"

text \<open>
  A model for concrete evaluations, as \<^verbatim>\<open>Model.__init__\<close> builds it from the layers
  above for \<open>D_h = D_g = D_p = 1\<close>, \<open>D_e = 2\<close>, \<open>D_y = 2\<close>, two speakers, two classes and the
  variant \<^verbatim>\<open>'general'\<close> for both attentions.
\<close>

definition model_party :: Model where
  "model_party =
     \<lparr>model_party_attention = Some ''general'',
      dialog_rnn_f = cell_party, dialog_rnn_b = cell_party,
      dropout_rec = no_dropout,
      linear1 = Linear_zero ''linear1'' 4 2 True,
      linear2 = Linear_zero ''linear2'' 2 1 True,
      smax_fc = Linear_zero ''smax_fc'' 1 2 True,
      dropout = no_dropout 0,
      matchatt = \<lparr>mem_dim = 2, cand_dim = 2, att_type = ''general2'',
                  transform = Some (Linear_zero ''matchatt.transform'' 2 2 True),
                  vector_prod = None\<rparr>\<rparr>"

text \<open>
  The same model after the assignments \<^verbatim>\<open>model.party_attention = 'simple'\<close> and
  \<^verbatim>\<open>model.matchatt = MatchingAttention(4, 4, att_type='general2')\<close>: a model whose
  attribute names the variant \<^verbatim>\<open>'simple'\<close> while its runners were built for \<^verbatim>\<open>'general'\<close>,
  and whose extra attention module has the width of the concatenated emotion vectors.
\<close>

definition model_simple :: Model where
  "model_simple =
     model_party
       \<lparr>model_party_attention := Some ''simple'',
        matchatt := \<lparr>mem_dim = 4, cand_dim = 4, att_type = ''general2'',
                     transform = Some (Linear_zero ''matchatt.transform'' 4 4 True),
                     vector_prod = None\<rparr>\<rparr>"

section \<open>Masked loss\<close>









section \<open>Properties of the attention modules\<close>







subsection \<open>Weights\<close>



lemma sum_list_zero_products:
  "\<forall>v\<in>set m. v = (0::real) \<Longrightarrow> sum_list (map2 (*) xs m) = 0"
proof (induction m arbitrary: xs)
  case Nil
  then show ?case by simp
next
  case (Cons v m)
  then show ?case by (cases xs) auto
qed

lemma general2_row_all_masked: "\<forall>v\<in>set m. v = 0 \<Longrightarrow> general2_row s m = None"
  by (simp add: general2_row_def Let_def sum_list_zero_products)




lemma length_transpose01: "length (transpose01 Y) = size1 Y"
  by (simp add: transpose01_def)

lemma init_fields:
  assumes "MatchingAttention_init Linear mem cand alpha_dim ty = Inr att"
  shows "att_type att = ty" and "mem_dim att = mem" and "cand_dim att = cand"
    and "ty = ''dot'' \<Longrightarrow> mem = cand"
    and "ty = ''general'' \<Longrightarrow> transform att = Some (Linear ''transform'' cand mem False)"
    and "ty = ''general2'' \<Longrightarrow> transform att = Some (Linear ''transform'' cand mem True)"
    and "ty = ''concat'' \<Longrightarrow> \<exists>a. alpha_dim = Some a
           \<and> transform att = Some (Linear ''transform'' (cand + mem) a False)
           \<and> vector_prod att = Some (Linear ''vector_prod'' a 1 False)"
  using assms by (auto simp: MatchingAttention_init_def Let_def split: if_splits)

lemma forward_general2:
  assumes "att_type att = ''general2''" and "transform att = Some tr"
    and "length x = size1 M" and "rows_of_width (cand_dim att) x" and "size2 M = mem_dim att"
    and "length m = size1 M" and "rows_of_width (length M) m"
  shows "MatchingAttention_forward att M x (Some m) =
     Inr (map2 (\<lambda>a h. map_option (\<lambda>w. weighted_sum (size2 M) (w ! 0) h) a)
            (map (\<lambda>b. general2_row (map (dot (tr (x ! b))) (transpose01 M ! b)) (m ! b)) [0..<size1 M])
            (transpose01 M),
          map (\<lambda>b. general2_row (map (dot (tr (x ! b))) (transpose01 M ! b)) (m ! b)) [0..<size1 M])"
  using assms by (simp add: MatchingAttention_forward_def Let_def)

text \<open>
  Claim C6. In the masked variant \<^verbatim>\<open>'general2'\<close>, on inputs of the declared shapes, a
  batch row whose mask row is zero everywhere has masked weights that sum to zero; the
  source divides by that sum without a test, so the call returns and the weights and the
  pooled vector of that row are undefined.
\<close>

theorem general2_all_masked_row_undefined:
  assumes "MatchingAttention_init Linear mem cand alpha_dim ''general2'' = Inr att"
    and "size2 M = mem" and "length x = size1 M" and "rows_of_width cand x"
    and "length m = size1 M" and "rows_of_width (length M) m"
    and "b < size1 M" and "\<forall>v\<in>set (m ! b). v = 0"
  shows "\<exists>pool alpha. MatchingAttention_forward att M x (Some m) = Inr (pool, alpha)
           \<and> alpha ! b = None \<and> pool ! b = None"
proof -
  note f = init_fields [OF assms(1)]
  have ty: "att_type att = ''general2''" by (rule f(1))
  have tr: "transform att = Some (Linear ''transform'' cand mem True)" using f(6) by simp
  have "general2_row s (m ! b) = None" for s
    using assms(8) by (rule general2_row_all_masked)
  then show ?thesis
    using assms(2-7) f(2,3) by (simp add: forward_general2 [OF ty tr] length_transpose01)
qed

theorem general2_all_masked_row_undefined_witness:
  "\<exists>pool alpha. MatchingAttention_forward
       \<lparr>mem_dim = 1, cand_dim = 1, att_type = ''general2'',
         transform = Some (Linear_zero ''transform'' 1 1 True), vector_prod = None\<rparr>
       [[[1], [2]]] [[1], [1]] (Some [[1], [0]]) = Inr (pool, alpha)
     \<and> alpha ! 1 = None \<and> pool ! 1 = None"
  by (rule general2_all_masked_row_undefined [where Linear = Linear_zero and mem = 1
        and cand = 1 and alpha_dim = None])
     (simp_all add: MatchingAttention_init_def size1_def size2_def rows_of_width_def)









subsection \<open>Configuration errors\<close>

text \<open>
  Claim C4, as the source has it. The constructor of MatchingAttention refuses
  \<^verbatim>\<open>'concat'\<close> without \<open>alpha_dim\<close> and \<^verbatim>\<open>'dot'\<close> with different widths, by its two
  assertions. It makes no test of the variant string itself: in every other case the
  construction succeeds, and for a string that is none of the four variants the module has
  no layer, so that every call of \<open>forward\<close> raises: an AttributeError when \<open>x\<close> has a
  row for every batch row of \<open>M\<close>.
\<close>

theorem MatchingAttention_init_checks:
  "(att = ''concat'' \<and> alpha_dim = None \<longrightarrow>
      MatchingAttention_init Linear mem cand alpha_dim att = Inl AssertionError)
   \<and> (att = ''dot'' \<and> mem \<noteq> cand \<longrightarrow>
      MatchingAttention_init Linear mem cand alpha_dim att = Inl AssertionError)
   \<and> (\<not> (att = ''concat'' \<and> alpha_dim = None) \<and> \<not> (att = ''dot'' \<and> mem \<noteq> cand) \<longrightarrow>
      (\<exists>m. MatchingAttention_init Linear mem cand alpha_dim att = Inr m))
   \<and> (att \<notin> {''dot'', ''general'', ''general2'', ''concat''} \<longrightarrow>
      (\<exists>m. MatchingAttention_init Linear mem cand alpha_dim att = Inr m
         \<and> (\<forall>M x msk. \<exists>e. MatchingAttention_forward m M x msk = Inl e)
         \<and> (\<forall>M x msk. length x = size1 M \<longrightarrow>
                MatchingAttention_forward m M x msk = Inl AttributeError)))"
  by (auto simp: MatchingAttention_init_def MatchingAttention_forward_def Let_def)

theorem MatchingAttention_init_checks_witness:
  "MatchingAttention_init Linear_zero 3 2 None ''concat'' = Inl AssertionError
   \<and> MatchingAttention_init Linear_zero 3 2 (Some 4) ''dot'' = Inl AssertionError
   \<and> (\<exists>m. MatchingAttention_init Linear_zero 3 2 (Some 4) ''general'' = Inr m)
   \<and> (\<exists>m. MatchingAttention_init Linear_zero 3 2 (Some 4) ''simple'' = Inr m
         \<and> (\<forall>M x msk. \<exists>e. MatchingAttention_forward m M x msk = Inl e))"
  using MatchingAttention_init_checks [where att = "''concat''" and alpha_dim = None
      and Linear = Linear_zero and mem = 3 and cand = 2]
    MatchingAttention_init_checks [where att = "''dot''" and alpha_dim = "Some 4"
      and Linear = Linear_zero and mem = 3 and cand = 2]
    MatchingAttention_init_checks [where att = "''general''" and alpha_dim = "Some 4"
      and Linear = Linear_zero and mem = 3 and cand = 2]
    MatchingAttention_init_checks [where att = "''simple''" and alpha_dim = "Some 4"
      and Linear = Linear_zero and mem = 3 and cand = 2]
  by simp blast

text \<open>
  The claim as the specification states it fails for the variant string: the constructor
  accepts \<^verbatim>\<open>'bilinear'\<close>, and the error comes at the first call of \<open>forward\<close>.
\<close>

theorem MatchingAttention_unknown_type_counterexample:
  "MatchingAttention_init Linear_zero 2 2 None ''bilinear'' =
     Inr \<lparr>mem_dim = 2, cand_dim = 2, att_type = ''bilinear'', transform = None, vector_prod = None\<rparr>
   \<and> MatchingAttention_forward
       \<lparr>mem_dim = 2, cand_dim = 2, att_type = ''bilinear'', transform = None, vector_prod = None\<rparr>
       [[[1, 2]]] [[1, 2]] None = Inl AttributeError"
  by (simp add: MatchingAttention_init_def MatchingAttention_forward_def size1_def)

section \<open>Properties of the dialogue step cell\<close>

lemma bind_err_Inr_iff: "bind_err m f = Inr y \<longleftrightarrow> (\<exists>x. m = Inr x \<and> f x = Inr y)"
  by (cases m) (simp_all add: bind_err_def)

lemma nth_map3:
  "i < length xs \<Longrightarrow> i < length ys \<Longrightarrow> i < length zs \<Longrightarrow>
   map3 f xs ys zs ! i = f (xs ! i) (ys ! i) (zs ! i)"
  by (simp add: map3_def)

lemma length_map3:
  "length (map3 f xs ys zs) = min (length xs) (min (length ys) (length zs))"
  by (simp add: map3_def)

lemma map2_keep_left: "length l = length s \<Longrightarrow> map2 (\<lambda>a c. a) l s = l"
  by (induction l s rule: list_induct2) simp_all

lemma map2_take_right: "length l = length s \<Longrightarrow> map2 (\<lambda>a c. c) l s = s"
  by (induction l s rule: list_induct2) simp_all

lemma same_shape_lengths:
  assumes "same_shape ql qs qm" and "b < length qm" and "p < length (qm ! b)"
  shows "b < length ql" and "b < length qs" and "p < length (ql ! b)" and "p < length (qs ! b)"
    and "length (ql ! b ! p) = length (qs ! b ! p)"
proof -
  from assms(1) have a: "map (map length) ql = map (map length) qs"
    and m: "map length ql = map length qm" by (simp_all add: same_shape_def)
  from m have lq: "length ql = length qm" by (rule map_eq_imp_length_eq)
  from a have ls: "length ql = length qs" by (rule map_eq_imp_length_eq)
  show b1: "b < length ql" using lq assms(2) by simp
  show b2: "b < length qs" using ls b1 by simp
  have "map length ql ! b = map length qm ! b" using m by simp
  then have "length (ql ! b) = length (qm ! b)" using b1 assms(2) by simp
  then show p1: "p < length (ql ! b)" using assms(3) by simp
  have "map (map length) ql ! b = map (map length) qs ! b" using a by simp
  then have r: "map length (ql ! b) = map length (qs ! b)" using b1 b2 by simp
  then have "length (ql ! b) = length (qs ! b)" by (rule map_eq_imp_length_eq)
  then show p2: "p < length (qs ! b)" using p1 by simp
  have "map length (ql ! b) ! p = map length (qs ! b) ! p" using r by simp
  then show "length (ql ! b ! p) = length (qs ! b ! p)" using p1 p2 by simp
qed

lemma merge_rows_nth:
  assumes "merge_rows ql qs qm = Inr r" and "b < length qm" and "p < length (qm ! b)"
  shows "r ! b ! p = map2 (\<lambda>a c. a * (1 - qm ! b ! p) + c * (qm ! b ! p)) (ql ! b ! p) (qs ! b ! p)"
    and "length (ql ! b ! p) = length (qs ! b ! p)"
proof -
  from assms(1) have sh: "same_shape ql qs qm"
    and r: "r = map3 (\<lambda>lrows srows mrow.
                  map3 (\<lambda>l s m. map2 (\<lambda>a c. a * (1 - m) + c * m) l s) lrows srows mrow)
                ql qs qm"
    by (auto simp: merge_rows_def split: if_splits)
  note l = same_shape_lengths [OF sh assms(2,3)]
  show "r ! b ! p = map2 (\<lambda>a c. a * (1 - qm ! b ! p) + c * (qm ! b ! p)) (ql ! b ! p) (qs ! b ! p)"
    unfolding r using l(1-4) assms(2,3) by (simp add: nth_map3)
  show "length (ql ! b ! p) = length (qs ! b ! p)" by (rule l(5))
qed

lemma merge_rows_inactive:
  assumes "merge_rows ql qs qm = Inr r" and "b < length qm" and "p < length (qm ! b)"
    and "qm ! b ! p = 0"
  shows "r ! b ! p = ql ! b ! p"
  using merge_rows_nth [OF assms(1-3)] assms(4) by (simp add: map2_keep_left)

lemma merge_rows_shape:
  assumes "merge_rows ql qs qm = Inr r"
  shows "map (map length) r = map (map length) ql"
proof -
  from assms have sh: "same_shape ql qs qm"
    and r: "r = map3 (\<lambda>lrows srows mrow.
                  map3 (\<lambda>l s m. map2 (\<lambda>a c. a * (1 - m) + c * m) l s) lrows srows mrow)
                ql qs qm"
    by (auto simp: merge_rows_def split: if_splits)
  from sh have a: "map (map length) ql = map (map length) qs"
    and m: "map length ql = map length qm" by (simp_all add: same_shape_def)
  have lq: "length ql = length qm" using m by (rule map_eq_imp_length_eq)
  have ls: "length ql = length qs" using a by (rule map_eq_imp_length_eq)
  have lr: "length r = length ql" unfolding r using lq ls by (simp add: map3_def)
  show ?thesis
  proof (rule nth_equalityI)
    show "length (map (map length) r) = length (map (map length) ql)" using lr by simp
  next
    fix b assume "b < length (map (map length) r)"
    then have b: "b < length ql" "b < length qs" "b < length qm" using lr lq ls by simp_all
    have "map length ql ! b = map length qm ! b" using m by simp
    then have e1: "length (ql ! b) = length (qm ! b)" using b by simp
    have "map (map length) ql ! b = map (map length) qs ! b" using a by simp
    then have rr: "map length (ql ! b) = map length (qs ! b)" using b by simp
    then have e2: "length (ql ! b) = length (qs ! b)" by (rule map_eq_imp_length_eq)
    have rb: "r ! b = map3 (\<lambda>l s m. map2 (\<lambda>a c. a * (1 - m) + c * m) l s) (ql ! b) (qs ! b) (qm ! b)"
      unfolding r using b by (simp add: nth_map3)
    have "map length (r ! b) = map length (ql ! b)"
    proof (rule nth_equalityI)
      show "length (map length (r ! b)) = length (map length (ql ! b))"
        using e1 e2 by (simp add: rb map3_def)
    next
      fix p assume "p < length (map length (r ! b))"
      then have p: "p < length (ql ! b)" "p < length (qs ! b)" "p < length (qm ! b)"
        using e1 e2 by (simp_all add: rb map3_def)
      have "map length (ql ! b) ! p = map length (qs ! b) ! p" using rr by simp
      then have "length (ql ! b ! p) = length (qs ! b ! p)" using p by simp
      moreover have "p < length (r ! b)" using p by (simp add: rb length_map3)
      ultimately show "map length (r ! b) ! p = map length (ql ! b) ! p"
        using p by (simp add: rb nth_map3 length_map3)
    qed
    then show "map (map length) r ! b = map (map length) ql ! b" using b lr by simp
  qed
qed


lemma forward_InrD:
  assumes "DialogueRNNCell_forward c k U qmask g_hist q0 q_hist e0 = Inr (g', q', e', e_out, alpha)"
  shows "\<exists>qs'. merge_rows (q0_init c qmask q0) qs' qmask = Inr q'"
    and "\<exists>gc' al. attend (attention c) (g_hist @ [g']) U = Inr (gc', al) \<and> alpha = Some al"
    and "party_attention c \<noteq> None \<Longrightarrow>
           \<exists>x es' x' qm_idx. e0_init c qmask e0 = E3 x \<and> merge_rows x es' qmask = Inr x'
              \<and> e' = E3 x' \<and> argmax_rows qmask = Inr qm_idx
              \<and> select_parties x' qm_idx = Inr e_out"
    and "party_attention c = None \<Longrightarrow>
           \<exists>x q_sel. e0_init c qmask e0 = E2 x \<and> e' = E2 e_out
              \<and> e_out = dropout2 c (3 * k + 2) (map2 (e_cell c) q_sel x)"
  using assms
  by (auto simp: DialogueRNNCell_forward_def bind_err_Inr_iff Let_def truthy_def
      split: if_splits estate.splits)


lemma one_hot_index:
  assumes "one_hot r"
  shows "\<exists>a<length r. r ! a = 1 \<and> (\<forall>p<length r. p \<noteq> a \<longrightarrow> r ! p = 0)"
  using assms unfolding one_hot_def
proof (induction r)
  case Nil
  then show ?case by simp
next
  case (Cons v vs)
  then have v: "v = 0 \<or> v = 1" and vs: "list_all (\<lambda>v. v = 0 \<or> v = 1) vs" by simp_all
  show ?case
  proof (cases "v = 1")
    case True
    with Cons.prems have "sum_list vs = 0" by simp
    moreover have "\<And>x. x \<in> set vs \<Longrightarrow> 0 \<le> x" using vs by (auto simp: list_all_iff)
    ultimately have z: "\<forall>x\<in>set vs. x = 0" by (simp add: sum_list_nonneg_eq_0_iff)
    have "\<forall>p<length (v # vs). p \<noteq> 0 \<longrightarrow> (v # vs) ! p = 0"
    proof (intro allI impI)
      fix p assume "p < length (v # vs)" "p \<noteq> 0"
      then obtain p' where "p = Suc p'" "p' < length vs" by (cases p) auto
      with z show "(v # vs) ! p = 0" by simp
    qed
    with True show ?thesis by (intro exI [of _ 0]) simp
  next
    case False
    with v have v0: "v = 0" by simp
    with Cons.prems have "sum_list vs = 1" by simp
    with Cons.IH vs obtain a where a: "a < length vs" "vs ! a = 1"
      "\<forall>p<length vs. p \<noteq> a \<longrightarrow> vs ! p = 0" by auto
    have "\<forall>p<length (v # vs). p \<noteq> Suc a \<longrightarrow> (v # vs) ! p = 0"
    proof (intro allI impI)
      fix p assume p: "p < length (v # vs)" "p \<noteq> Suc a"
      show "(v # vs) ! p = 0"
      proof (cases p)
        case 0
        with v0 show ?thesis by simp
      next
        case (Suc p')
        with p a(3) show ?thesis by simp
      qed
    qed
    with a(1,2) show ?thesis by (intro exI [of _ "Suc a"]) simp
  qed
qed

lemma argmax_from_no_better:
  "\<forall>v\<in>set vs. v \<le> best \<Longrightarrow> argmax_from best bi i vs = bi"
  by (induction vs arbitrary: i) auto

lemma argmax_from_one_hot:
  assumes "a < length vs" and "vs ! a = 1" and "\<forall>p<length vs. p \<noteq> a \<longrightarrow> vs ! p = 0"
  shows "argmax_from 0 bi i vs = i + a"
  using assms
proof (induction vs arbitrary: a i bi)
  case Nil
  then show ?case by simp
next
  case (Cons v vs)
  show ?case
  proof (cases a)
    case 0
    with Cons.prems have v: "v = 1" and z: "\<forall>p<length vs. vs ! p = 0" by auto
    from z have "\<forall>x\<in>set vs. x \<le> 1" by (auto simp: in_set_conv_nth)
    with v 0 show ?thesis by (simp add: argmax_from_no_better)
  next
    case (Suc a')
    with Cons.prems have v: "v = 0" by auto
    have "a' < length vs" "vs ! a' = 1" using Cons.prems Suc by auto
    moreover have "\<forall>p<length vs. p \<noteq> a' \<longrightarrow> vs ! p = 0"
    proof (intro allI impI)
      fix p assume "p < length vs" "p \<noteq> a'"
      with Cons.prems(3) Suc have "(v # vs) ! Suc p = 0" by auto
      then show "vs ! p = 0" by simp
    qed
    ultimately have "argmax_from 0 bi (Suc i) vs = Suc i + a'" by (rule Cons.IH)
    with v Suc show ?thesis by simp
  qed
qed

lemma one_hot_inactive:
  assumes "one_hot r" and "p < length r" and "p \<noteq> argmax r"
  shows "r ! p = 0"
proof -
  from one_hot_index [OF assms(1)] obtain a where a: "a < length r" "r ! a = 1"
    "\<forall>p<length r. p \<noteq> a \<longrightarrow> r ! p = 0" by auto
  have "argmax r = a"
  proof (cases r)
    case Nil
    with a show ?thesis by simp
  next
    case (Cons v vs)
    show ?thesis
    proof (cases a)
      case 0
      with a Cons have v: "v = 1" and z: "\<forall>p<length vs. vs ! p = 0" by auto
      from z have "\<forall>x\<in>set vs. x \<le> 1" by (auto simp: in_set_conv_nth)
      with v 0 Cons show ?thesis by (simp add: argmax_def argmax_from_no_better)
    next
      case (Suc a')
      with a Cons have v: "v = 0" by auto
      have "a' < length vs" "vs ! a' = 1" using a Cons Suc by auto
      moreover have "\<forall>p<length vs. p \<noteq> a' \<longrightarrow> vs ! p = 0"
      proof (intro allI impI)
        fix p assume "p < length vs" "p \<noteq> a'"
        with a(3) Cons Suc have "(v # vs) ! Suc p = 0" by auto
        then show "vs ! p = 0" by simp
      qed
      ultimately have "argmax_from 0 0 1 vs = 1 + a'" by (rule argmax_from_one_hot)
      with v Suc Cons show ?thesis by (simp add: argmax_def)
    qed
  qed
  with a(3) assms(2,3) show ?thesis by simp
qed

lemma defined_rows_Some: "defined_rows rs = Some xs \<Longrightarrow> rs = map Some xs"
  by (auto simp: defined_rows_def list_all_iff map_idI split: if_splits intro!: nth_equalityI)

subsection \<open>Concrete steps and runs\<close>

lemmas ev = DialogueRNNCell_forward_def bind_err_def argmax_rows_def argmax_def select_parties_def
  zeros2_def zeros3_def esize0_def cat3_def map3_def attend_def MatchingAttention_forward_def
  defined_rows_def merge_rows_def same_shape_def size1_def size2_def transpose01_def softmax_def
  dot_def weighted_sum_def Linear_zero_def GRUCell_half_def no_dropout_def Let_def
  eval_nat_numeral truthy_def e0_init_def q0_init_def general_zero_def party_pool_def
  py_index_def upt_conv_Cons rows_of_width_def

lemma cell_plain_init:
  "DialogueRNNCell_init Linear_zero GRUCell_half no_dropout no_dropout 1 1 1 2 2
     (Some ''general'') None 1 = Inr cell_plain"
  by (simp add: DialogueRNNCell_init_def MatchingAttention_init_def cell_plain_def
      general_zero_def Linear_zero_def GRUCell_half_def fun_eq_iff)

lemma cell_party_init:
  "DialogueRNNCell_init Linear_zero GRUCell_half no_dropout no_dropout 1 1 1 2 2
     (Some ''general'') (Some ''general'') 1 = Inr cell_party"
  by (simp add: DialogueRNNCell_init_def MatchingAttention_init_def cell_party_def
      general_zero_def Linear_zero_def GRUCell_half_def fun_eq_iff)

lemma cell_plain_first_step:
  "DialogueRNNCell_forward cell_plain 0 [[5]] [[1, 0]] [] [] [] (E2 []) =
   Inr ([[1 / 4]], [[[1 / 4], [0]]], E2 [[1 / 4, 1 / 4]], [[1 / 4, 1 / 4]], Some [[[1]]])"
  by (simp add: ev cell_plain_def)

lemma cell_plain_later_step:
  "DialogueRNNCell_forward cell_plain 1 [[6]] [[1, 0]] [[[1 / 4]]] [[[1 / 4], [0]]] []
     (E2 [[1 / 4, 1 / 4]]) =
   Inr ([[3 / 8]], [[[3 / 8], [0]]], E2 [[3 / 8, 3 / 8]], [[3 / 8, 3 / 8]], Some [[[1 / 2, 1 / 2]]])"
  by (simp add: ev cell_plain_def)

lemma cell_party_step:
  "DialogueRNNCell_forward cell_party 1 [[6]] [[0, 1]] [] [[[1 / 4], [0]]] []
     (E3 [[[1 / 4, 1 / 4], [0, 0]]]) =
   Inr ([[1 / 4]], [[[1 / 4], [1 / 4]]], E3 [[[1 / 4, 1 / 4], [1 / 4, 1 / 4]]], [[1 / 4, 1 / 4]], Some [[[1]]])"
  by (simp add: ev cell_party_def)

lemma cell_plain_run:
  "DialogueRNN_forward cell_plain [[[5]], [[6]]] [[[1, 0]], [[0, 1]]] =
   Inr ([[[1 / 4, 1 / 4]], [[3 / 8, 3 / 8]]], [[[1 / 4, 1 / 4]], [[3 / 8, 3 / 8]]], [[[1]], [[1]]])"
  by (simp add: DialogueRNN_forward_def ev cell_plain_def)

lemma cell_party_run:
  "DialogueRNN_forward cell_party [[[5]], [[6]]] [[[1, 0]], [[1, 0]]] =
   Inr ([[[1 / 4, 1 / 4]], [[3 / 8, 3 / 8]]], [[[1 / 4, 1 / 4]], [[3 / 8, 3 / 8]]], [[[1]], [[1]]])"
  by (simp add: DialogueRNN_forward_def ev cell_party_def)

lemma cell_plain_contexts:
  "DialogueRNN_contexts cell_plain 0 [([[5]], [[1, 0]]), ([[6]], [[0, 1]])] [] (E2 []) =
   Inr [[[1 / 4]], [[1 / 4]]]"
  by (simp add: ev cell_plain_def)

subsection \<open>Frame of a step\<close>

text \<open>
  Claim C2. In a step of the cell that returns, for a batch row whose speaker mask is
  one-hot, the party state row of every speaker other than the active one (the argmax of
  the mask row) is the row that came in (zero at the first step of a sequence); with
  party attention, the same holds for the rows of the emotion state.
\<close>

theorem cell_keeps_inactive_speakers:
  assumes "DialogueRNNCell_forward c k U qmask g_hist q0 q_hist e0 = Inr (g', q', e', e_out, alpha)"
    and "b < length qmask" and "one_hot (qmask ! b)"
    and "p < length (qmask ! b)" and "p \<noteq> argmax (qmask ! b)"
  shows "q' ! b ! p = q0_init c qmask q0 ! b ! p
       \<and> (party_attention c \<noteq> None \<longrightarrow>
            (\<exists>x x'. e0_init c qmask e0 = E3 x \<and> e' = E3 x' \<and> x' ! b ! p = x ! b ! p))"
proof -
  have z: "qmask ! b ! p = 0" using assms(3,4,5) by (rule one_hot_inactive)
  from forward_InrD(1) [OF assms(1)] obtain qs'
    where "merge_rows (q0_init c qmask q0) qs' qmask = Inr q'" by auto
  then have 1: "q' ! b ! p = q0_init c qmask q0 ! b ! p"
    using assms(2,4) z by (rule merge_rows_inactive)
  have 2: "\<exists>x x'. e0_init c qmask e0 = E3 x \<and> e' = E3 x' \<and> x' ! b ! p = x ! b ! p"
    if "party_attention c \<noteq> None"
  proof -
    from forward_InrD(3) [OF assms(1) that] obtain x es' x'
      where x: "e0_init c qmask e0 = E3 x" "merge_rows x es' qmask = Inr x'" "e' = E3 x'" by auto
    from x(2) assms(2,4) z have "x' ! b ! p = x ! b ! p" by (rule merge_rows_inactive)
    with x show ?thesis by auto
  qed
  from 1 2 show ?thesis by blast
qed

theorem cell_keeps_inactive_speakers_witness:
  "[[[1 / 4], [1 / 4]]] ! 0 ! 0 = q0_init cell_party [[0, 1]] [[[1 / 4], [0]]] ! 0 ! 0
   \<and> (\<exists>x x'. e0_init cell_party [[0, 1]] (E3 [[[1 / 4, 1 / 4], [0, 0]]]) = E3 x
         \<and> E3 [[[1 / 4, 1 / 4], [1 / 4, 1 / 4]]] = E3 x' \<and> x' ! 0 ! 0 = x ! 0 ! 0)"
proof -
  have oh: "one_hot ([[0, 1]] ! 0)" by (simp add: one_hot_def)
  have b: "0 < length [[0::real, 1]]" and p: "0 < length ([[0::real, 1]] ! 0)" by simp_all
  have a: "0 \<noteq> argmax ([[0, 1]] ! 0)" by (simp add: argmax_def)
  have pa: "party_attention cell_party \<noteq> None" by (simp add: cell_party_def)
  from cell_keeps_inactive_speakers [OF cell_party_step b oh p a] pa
  show ?thesis by blast
qed

subsection \<open>Attention weights of a step\<close>

text \<open>
  Claim C3, as the source has it. The cell appends the new context vector to the history
  before it tests whether the history is empty, so the test never holds: a step that
  returns always returns the weights of the attention over the history that was passed
  in, extended by the new context vector. This includes the first step, where the
  history that was passed in is empty and the weights range over one entry.
\<close>

theorem cell_attention_weights_at_every_step:
  assumes "DialogueRNNCell_forward c k U qmask g_hist q0 q_hist e0 = Inr (g', q', e', e_out, alpha)"
  shows "\<exists>att pool al. attention c = Some att
           \<and> MatchingAttention_forward att (g_hist @ [g']) U None = Inr (pool, map Some al)
           \<and> alpha = Some al"
proof -
  from forward_InrD(2) [OF assms] obtain gc' al
    where a: "attend (attention c) (g_hist @ [g']) U = Inr (gc', al)" and al: "alpha = Some al"
    by auto
  from a obtain att pool rows where "attention c = Some att"
    "MatchingAttention_forward att (g_hist @ [g']) U None = Inr (pool, rows)"
    "defined_rows rows = Some al"
    by (auto simp: attend_def split: option.splits sum.splits)
  with al defined_rows_Some [of rows al] show ?thesis by auto
qed


theorem cell_attention_weights_at_every_step_witness:
  "\<exists>att pool al. attention cell_plain = Some att
     \<and> MatchingAttention_forward att ([[[1 / 4]]] @ [[[3 / 8]]]) [[6]] None = Inr (pool, map Some al)
     \<and> Some [[[1 / 2, 1 / 2]]] = Some al"
  by (rule cell_attention_weights_at_every_step [OF cell_plain_later_step])

text \<open>
  The claim as the specification states it fails at the first step: with an empty
  context history the cell returns the weights \<open>[[[1]]]\<close>, not \<open>None\<close>.
\<close>

theorem cell_first_step_weights_counterexample:
  "DialogueRNNCell_forward cell_plain 0 [[5]] [[1, 0]] [] [] [] (E2 []) =
   Inr ([[1 / 4]], [[[1 / 4], [0]]], E2 [[1 / 4, 1 / 4]], [[1 / 4, 1 / 4]], Some [[[1]]])"
  by (rule cell_plain_first_step)

section \<open>Properties of the sequence runner\<close>

lemma cell_emotion_output:
  assumes "DialogueRNNCell_forward c k u qm g_hist q q_hist e = Inr (g', q', e', c', alpha')"
    and "(if party_attention c \<noteq> None
          then bind_err (argmax_rows qm) (\<lambda>qm_idx.
                 case e' of E3 x \<Rightarrow> select_parties x qm_idx | E2 x \<Rightarrow> Inl RuntimeError)
          else (case e' of E2 x \<Rightarrow> Inr x | E3 x \<Rightarrow> Inl RuntimeError)) = Inr e_item"
  shows "e_item = c'"
proof (cases "party_attention c = None")
  case True
  with forward_InrD(4) [OF assms(1)] have "e' = E2 c'" by auto
  with assms(2) True show ?thesis by simp
next
  case False
  with forward_InrD(3) [OF assms(1)] obtain x' qm_idx where
    "e' = E3 x'" "argmax_rows qm = Inr qm_idx" "select_parties x' qm_idx = Inr c'" by auto
  with assms(2) False show ?thesis by (simp add: bind_err_def)
qed

lemma loop_outputs:
  assumes "DialogueRNN_loop c k xs q e = Inr (es, cs, al)"
  shows "es = cs \<and> length cs = length xs"
  using assms
proof (induction xs arbitrary: k q e es cs al)
  case Nil
  then show ?case by simp
next
  case (Cons x xs)
  obtain u qm where x: "x = (u, qm)" by (cases x)
  from Cons.prems obtain g' q' e' c' alpha' e_item es' cs' al' where
    f: "DialogueRNNCell_forward c k u qm [] q [] e = Inr (g', q', e', c', alpha')"
    and i: "(if party_attention c \<noteq> None
          then bind_err (argmax_rows qm) (\<lambda>qm_idx.
                 case e' of E3 x \<Rightarrow> select_parties x qm_idx | E2 x \<Rightarrow> Inl RuntimeError)
          else (case e' of E2 x \<Rightarrow> Inr x | E3 x \<Rightarrow> Inl RuntimeError)) = Inr e_item"
    and r: "DialogueRNN_loop c (Suc k) xs q' e' = Inr (es', cs', al')"
    and e: "es = e_item # es'" "cs = c' # cs'"
    unfolding x by (auto simp: bind_err_Inr_iff)
  from cell_emotion_output [OF f i] Cons.IH [OF r] e show ?case by simp
qed

text \<open>
  Claim C10. Whenever the sequence runner returns, in either emotion mode, its first and
  its second result are the same tensor: at every step the list \<^verbatim>\<open>c\<close> receives the
  fourth result of the cell, which is the emotion row of the active speaker that the
  list \<^verbatim>\<open>e\<close> receives.
\<close>

theorem runner_outputs_are_equal:
  assumes "DialogueRNN_forward c U qmask = Inr (es, cs, alphas)"
  shows "es = cs"
proof -
  from assms have "DialogueRNN_loop c 0 (zip U qmask) [] (E2 []) = Inr (es, cs, alphas)"
    by (auto simp: DialogueRNN_forward_def bind_err_Inr_iff split: if_splits)
  then show ?thesis by (simp add: loop_outputs)
qed

theorem runner_outputs_are_equal_witness:
  "\<exists>es al. DialogueRNN_forward cell_plain [[[5]], [[6]]] [[[1, 0]], [[0, 1]]] = Inr (es, es, al)
     \<and> (\<exists>es al. DialogueRNN_forward cell_party [[[5]], [[6]]] [[[1, 0]], [[1, 0]]] = Inr (es, es, al))"
  using runner_outputs_are_equal [OF cell_plain_run] runner_outputs_are_equal [OF cell_party_run]
    cell_plain_run cell_party_run
  by simp

lemma wide_e0_init: "wide (D_e c) e0 \<Longrightarrow> wide (D_e c) (e0_init c qm e0)"
  by (auto simp: e0_init_def wide_def zeros3_def zeros2_def list_all_iff)

lemma map_length_widths:
  "map length A = map length B \<Longrightarrow> list_all (\<lambda>r. length r = d) B \<Longrightarrow> list_all (\<lambda>r. length r = d) A"
proof -
  assume a: "map length A = map length B" and b: "list_all (\<lambda>r. length r = d) B"
  have "length A = length B" using a by (rule map_eq_imp_length_eq)
  show ?thesis unfolding list_all_length
  proof (intro allI impI)
    fix i assume i: "i < length A"
    have "map length A ! i = map length B ! i" using a by simp
    then have "length (A ! i) = length (B ! i)" using i \<open>length A = length B\<close> by simp
    with b i \<open>length A = length B\<close> show "length (A ! i) = d" by (simp add: list_all_length)
  qed
qed

lemma merge_rows_wide:
  assumes "merge_rows x es' qm = Inr x'" and "list_all (list_all (\<lambda>r. length r = d)) x"
  shows "list_all (list_all (\<lambda>r. length r = d)) x'"
proof -
  have s: "map (map length) x' = map (map length) x" using assms(1) by (rule merge_rows_shape)
  have l: "length x' = length x" using s by (rule map_eq_imp_length_eq)
  have "list_all (\<lambda>r. length r = d) (x' ! b)" if b: "b < length x'" for b
  proof -
    have "map (map length) x' ! b = map (map length) x ! b" using s by simp
    then have "map length (x' ! b) = map length (x ! b)" using b l by simp
    moreover have "list_all (\<lambda>r. length r = d) (x ! b)"
      using assms(2) b l by (simp add: list_all_length)
    ultimately show ?thesis by (rule map_length_widths)
  qed
  then show ?thesis by (simp add: list_all_length)
qed

lemma select_parties_wide:
  assumes "select_parties x idx = Inr out" and "list_all (list_all (\<lambda>r. length r = d)) x"
  shows "list_all (\<lambda>r. length r = d) out"
proof -
  from assms(1) have ok: "list_all (\<lambda>(i, j). i < length j) (zip idx x)"
    and out: "out = map2 (\<lambda>i j. j ! i) idx x"
    by (auto simp: select_parties_def split: if_splits)
  show ?thesis unfolding out list_all_iff
  proof
    fix r assume "r \<in> set (map2 (\<lambda>i j. j ! i) idx x)"
    then obtain i j where ij: "(i, j) \<in> set (zip idx x)" and r: "r = j ! i" by auto
    from ij ok have "i < length j" by (auto simp: list_all_iff)
    moreover from ij have "j \<in> set x" by (rule set_zip_rightD)
    ultimately show "length r = d" using assms(2) r by (auto simp: list_all_iff)
  qed
qed

lemma cell_step_wide:
  assumes "DialogueRNNCell_forward c k u qm g_hist q q_hist e = Inr (g', q', e', c', alpha')"
    and "wide (D_e c) e" and "emotion_layers_contract c"
  shows "wide (D_e c) e' \<and> list_all (\<lambda>r. length r = D_e c) c'"
proof (cases "party_attention c = None")
  case True
  from forward_InrD(4) [OF assms(1) True] obtain x q_sel where
    x: "e0_init c qm e = E2 x" and e': "e' = E2 c'"
    and c': "c' = dropout2 c (3 * k + 2) (map2 (e_cell c) q_sel x)" by auto
  have wx: "list_all (\<lambda>r. length r = D_e c) x"
    using wide_e0_init [OF assms(2), of qm] x by (simp add: wide_def)
  have "map length c' = map length (map2 (e_cell c) q_sel x)"
    using assms(3) unfolding c' by (simp add: emotion_layers_contract_def)
  moreover have "list_all (\<lambda>r. length r = D_e c) (map2 (e_cell c) q_sel x)"
    unfolding list_all_iff
  proof
    fix r assume "r \<in> set (map2 (e_cell c) q_sel x)"
    then obtain a h where "(a, h) \<in> set (zip q_sel x)" and r: "r = e_cell c a h" by auto
    then have "h \<in> set x" by (auto dest: set_zip_rightD)
    with wx have "length h = D_e c" by (simp add: list_all_iff)
    with assms(3) r show "length r = D_e c" by (simp add: emotion_layers_contract_def)
  qed
  ultimately have "list_all (\<lambda>r. length r = D_e c) c'" by (rule map_length_widths)
  with e' show ?thesis by (simp add: wide_def)
next
  case False
  from forward_InrD(3) [OF assms(1) False] obtain x es' x' qm_idx where
    x: "e0_init c qm e = E3 x" and m: "merge_rows x es' qm = Inr x'" and e': "e' = E3 x'"
    and s: "select_parties x' qm_idx = Inr c'" by auto
  have wx: "list_all (list_all (\<lambda>r. length r = D_e c)) x"
    using wide_e0_init [OF assms(2), of qm] x by (simp add: wide_def)
  have wx': "list_all (list_all (\<lambda>r. length r = D_e c)) x'"
    using m wx by (rule merge_rows_wide)
  from select_parties_wide [OF s wx'] wx' e' show ?thesis by (simp add: wide_def)
qed

lemma loop_wide:
  assumes "DialogueRNN_loop c k xs q e = Inr (es, cs, al)"
    and "wide (D_e c) e" and "emotion_layers_contract c"
  shows "list_all (list_all (\<lambda>r. length r = D_e c)) cs"
  using assms(1,2)
proof (induction xs arbitrary: k q e es cs al)
  case Nil
  then show ?case by simp
next
  case (Cons x xs)
  obtain u qm where x: "x = (u, qm)" by (cases x)
  from Cons.prems(1) obtain g' q' e' c' alpha' es' cs' al' where
    f: "DialogueRNNCell_forward c k u qm [] q [] e = Inr (g', q', e', c', alpha')"
    and r: "DialogueRNN_loop c (Suc k) xs q' e' = Inr (es', cs', al')"
    and e: "cs = c' # cs'"
    unfolding x by (auto simp: bind_err_Inr_iff)
  from cell_step_wide [OF f Cons.prems(2) assms(3)]
  have "wide (D_e c) e'" "list_all (\<lambda>r. length r = D_e c) c'" by simp_all
  with Cons.IH [OF r] e show ?case by simp
qed


section \<open>Properties of the bidirectional model\<close>

lemmas evm = Model_hidden_input_def Model_emotions_def Model_att_emotions_def DialogueRNN_forward_def
  reverse_seq_def pad_sequence_def max_len_def mask_sum_def trunc_int_def slice_to_def cat_last_def
  general2_row_def model_party_def cell_party_def

lemma model_party_hidden_input:
  "Model_hidden_input model_party [[[5]], [[6]]] [[[1, 0]], [[1, 0]]] (Some [[1, 1]]) True =
   Inr ([[[1 / 4, 1 / 4, 3 / 8, 3 / 8]], [[3 / 8, 3 / 8, 1 / 4, 1 / 4]]], [[[1 / 4, 1 / 4, 1 / 4, 1 / 4]], [[3 / 8, 3 / 8, 3 / 8, 3 / 8]]])"
  by (simp add: evm ev)

lemma model_party_emotions:
  "Model_emotions model_party [[[5]], [[6]]] [[[1, 0]], [[1, 0]]] (Some [[1, 1]]) =
   Inr ([[[1 / 4, 1 / 4, 3 / 8, 3 / 8]], [[3 / 8, 3 / 8, 1 / 4, 1 / 4]]],
        [[[1 / 4, 1 / 4, 1 / 4, 1 / 4]], [[3 / 8, 3 / 8, 3 / 8, 3 / 8]]])"
  by (simp add: evm ev)

text \<open>
  Two observations on models as \<^verbatim>\<open>Model.__init__\<close> builds them. The module
  \<^verbatim>\<open>self.matchatt\<close> is built for the width \<open>D_e\<close>, so on the concatenated emotion vectors,
  of width \<open>2 * D_e\<close>, its layer raises. And a cell built for the party attention
  \<^verbatim>\<open>'simple'\<close> holds attention modules without layers, so its step raises.
\<close>

lemma model_party_extra_pass_raises:
  "Model_att_emotions model_party
     [[[1 / 4, 1 / 4, 3 / 8, 3 / 8]], [[3 / 8, 3 / 8, 1 / 4, 1 / 4]]] (Some [[1, 1]]) =
   Inl RuntimeError"
  by (simp add: evm ev)

lemma simple_party_attention_step_raises:
  "bind_err (DialogueRNNCell_init Linear_zero GRUCell_half no_dropout no_dropout 1 1 1 2 2
       (Some ''general'') (Some ''simple'') 1)
     (\<lambda>c. DialogueRNNCell_forward c 0 [[5]] [[1, 0]] [] [] [] (E2 [])) = Inl AttributeError"
  by (simp add: DialogueRNNCell_init_def MatchingAttention_init_def ev)

lemma model_simple_hidden_input:
  "Model_hidden_input model_simple
     [[[5]], [[6]]] [[[1, 0]], [[1, 0]]] (Some [[1, 1]]) True =
   Inr ([[[5 / 16, 5 / 16, 5 / 16, 5 / 16]], [[5 / 16, 5 / 16, 5 / 16, 5 / 16]]],
        [[[1 / 4, 1 / 4, 1 / 4, 1 / 4]], [[3 / 8, 3 / 8, 3 / 8, 3 / 8]]])"
  by (simp add: model_simple_def evm ev)

lemma model_party_init:
  "Model_init Linear_zero GRUCell_half (\<lambda>n. no_dropout) (\<lambda>n. no_dropout) 1 1 1 2 2 2 2
     (Some ''general'') (Some ''general'') 1 = Inr model_party"
  by (simp add: Model_init_def DialogueRNNCell_init_def MatchingAttention_init_def bind_err_def
      model_party_def cell_party_def general_zero_def Linear_zero_def GRUCell_half_def fun_eq_iff)


lemma map_err_Inr:
  assumes "map_err f xs = Inr ys"
  shows "length ys = length xs \<and> (\<forall>i<length xs. f (xs ! i) = Inr (ys ! i))"
  using assms
proof (induction xs arbitrary: ys)
  case Nil
  then show ?case by simp
next
  case (Cons x xs)
  from Cons.prems obtain y ys' where y: "f x = Inr y" and r: "map_err f xs = Inr ys'"
    and ys: "ys = y # ys'" by (auto simp: bind_err_Inr_iff)
  from Cons.IH [OF r] have l: "length ys' = length xs"
    and n: "\<forall>i<length xs. f (xs ! i) = Inr (ys' ! i)" by simp_all
  have "f ((x # xs) ! i) = Inr (ys ! i)" if "i < length (x # xs)" for i
    using that y n ys by (cases i) simp_all
  with l ys show ?case by simp
qed

lemma Model_att_emotions_rows:
  assumes "Model_att_emotions m emotions umask = Inr att"
  shows "length att = length emotions
       \<and> (\<forall>t<length emotions. \<exists>alpha.
             MatchingAttention_forward (matchatt m) emotions (emotions ! t) umask =
               Inr (map Some (att ! t), alpha))"
proof -
  let ?f = "\<lambda>t. bind_err (MatchingAttention_forward (matchatt m) emotions t umask)
                    (\<lambda>(pool, alpha).
                       case defined_rows pool of None \<Rightarrow> Inl NaNValue | Some pl \<Rightarrow> Inr pl)"
  from assms have "map_err ?f emotions = Inr att" by (simp add: Model_att_emotions_def)
  from map_err_Inr [OF this] have l: "length att = length emotions"
    and n: "\<forall>t<length emotions. ?f (emotions ! t) = Inr (att ! t)" by simp_all
  have "\<exists>alpha. MatchingAttention_forward (matchatt m) emotions (emotions ! t) umask =
               Inr (map Some (att ! t), alpha)" if "t < length emotions" for t
  proof -
    from n that have "?f (emotions ! t) = Inr (att ! t)" by simp
    then obtain pool alpha where
      "MatchingAttention_forward (matchatt m) emotions (emotions ! t) umask = Inr (pool, alpha)"
      "defined_rows pool = Some (att ! t)"
      by (auto simp: bind_err_Inr_iff split: option.splits)
    with defined_rows_Some [of pool "att ! t"] show ?thesis by auto
  qed
  with l show ?thesis by simp
qed

text \<open>
  Claim C5, as the source has it. The flag \<^verbatim>\<open>att2\<close> alone does not select the extra
  attention pass: the source tests \<^verbatim>\<open>att2 and self.party_attention == "simple"\<close>. In a
  call that returns with the flag set and that attribute equal to \<^verbatim>\<open>'simple'\<close>, the head
  receives the pooled vectors of the pass, in which every timestep of the concatenated
  emotion vectors is the query of \<^verbatim>\<open>self.matchatt\<close> over the whole sequence with the
  mask; in every other call that returns, the head receives the concatenated emotion
  vectors themselves.
\<close>

theorem Model_extra_attention_gate:
  assumes "Model_forward m U qmask umask att2 = Inr (log_prob, c)"
  shows "\<exists>emotions. Model_emotions m U qmask umask = Inr (emotions, c)
          \<and> (if att2 \<and> model_party_attention m = Some ''simple''
              then \<exists>att. log_prob = Model_head m att \<and> length att = length emotions
                     \<and> (\<forall>t<length emotions. \<exists>alpha.
                           MatchingAttention_forward (matchatt m) emotions (emotions ! t) umask =
                             Inr (map Some (att ! t), alpha))
              else log_prob = Model_head m emotions)"
proof -
  from assms obtain x where h: "Model_hidden_input m U qmask umask att2 = Inr (x, c)"
    and lp: "log_prob = Model_head m x"
    by (auto simp: Model_forward_def bind_err_Inr_iff)
  from h obtain emotions where e: "Model_emotions m U qmask umask = Inr (emotions, c)"
    and x: "(if att2 \<and> model_party_attention m = Some ''simple''
             then Model_att_emotions m emotions umask else Inr emotions) = Inr x"
    by (auto simp: Model_hidden_input_def bind_err_Inr_iff)
  show ?thesis
  proof (cases "att2 \<and> model_party_attention m = Some ''simple''")
    case True
    with x have "Model_att_emotions m emotions umask = Inr x" by simp
    from Model_att_emotions_rows [OF this] e lp True show ?thesis by auto
  next
    case False
    with x e lp show ?thesis by auto
  qed
qed


theorem Model_extra_attention_gate_witness:
  "(\<exists>emotions. Model_emotions model_party [[[5]], [[6]]] [[[1, 0]], [[1, 0]]] (Some [[1, 1]]) =
        Inr (emotions, [[[1 / 4, 1 / 4, 1 / 4, 1 / 4]], [[3 / 8, 3 / 8, 3 / 8, 3 / 8]]])
      \<and> Model_head model_party [[[1 / 4, 1 / 4, 3 / 8, 3 / 8]], [[3 / 8, 3 / 8, 1 / 4, 1 / 4]]] = Model_head model_party emotions)
   \<and> (\<exists>emotions att.
        Model_emotions model_simple [[[5]], [[6]]] [[[1, 0]], [[1, 0]]] (Some [[1, 1]]) =
          Inr (emotions, [[[1 / 4, 1 / 4, 1 / 4, 1 / 4]], [[3 / 8, 3 / 8, 3 / 8, 3 / 8]]])
      \<and> Model_head model_simple [[[5 / 16, 5 / 16, 5 / 16, 5 / 16]], [[5 / 16, 5 / 16, 5 / 16, 5 / 16]]] =
          Model_head model_simple att
      \<and> length att = length emotions)"
proof -
  have r1: "Model_forward model_party [[[5]], [[6]]] [[[1, 0]], [[1, 0]]] (Some [[1, 1]]) True =
      Inr (Model_head model_party [[[1 / 4, 1 / 4, 3 / 8, 3 / 8]], [[3 / 8, 3 / 8, 1 / 4, 1 / 4]]], [[[1 / 4, 1 / 4, 1 / 4, 1 / 4]], [[3 / 8, 3 / 8, 3 / 8, 3 / 8]]])"
    by (simp add: Model_forward_def model_party_hidden_input bind_err_def)
  have r2: "Model_forward model_simple [[[5]], [[6]]] [[[1, 0]], [[1, 0]]] (Some [[1, 1]]) True =
      Inr (Model_head model_simple [[[5 / 16, 5 / 16, 5 / 16, 5 / 16]], [[5 / 16, 5 / 16, 5 / 16, 5 / 16]]],
           [[[1 / 4, 1 / 4, 1 / 4, 1 / 4]], [[3 / 8, 3 / 8, 3 / 8, 3 / 8]]])"
    by (simp add: Model_forward_def model_simple_hidden_input bind_err_def)
  have p1: "\<not> (True \<and> model_party_attention model_party = Some ''simple'')"
    by (simp add: model_party_def)
  have p2: "True \<and> model_party_attention model_simple = Some ''simple''"
    by (simp add: model_simple_def)
  from Model_extra_attention_gate [OF r1] p1
  have a: "\<exists>emotions. Model_emotions model_party [[[5]], [[6]]] [[[1, 0]], [[1, 0]]] (Some [[1, 1]]) =
        Inr (emotions, [[[1 / 4, 1 / 4, 1 / 4, 1 / 4]], [[3 / 8, 3 / 8, 3 / 8, 3 / 8]]])
      \<and> Model_head model_party [[[1 / 4, 1 / 4, 3 / 8, 3 / 8]], [[3 / 8, 3 / 8, 1 / 4, 1 / 4]]] = Model_head model_party emotions"
    by auto
  from Model_extra_attention_gate [OF r2] p2
  have b: "\<exists>emotions att.
        Model_emotions model_simple [[[5]], [[6]]] [[[1, 0]], [[1, 0]]] (Some [[1, 1]]) =
          Inr (emotions, [[[1 / 4, 1 / 4, 1 / 4, 1 / 4]], [[3 / 8, 3 / 8, 3 / 8, 3 / 8]]])
      \<and> Model_head model_simple [[[5 / 16, 5 / 16, 5 / 16, 5 / 16]], [[5 / 16, 5 / 16, 5 / 16, 5 / 16]]] =
          Model_head model_simple att
      \<and> length att = length emotions"
    by auto
  from a b show ?thesis by blast
qed

text \<open>
  The claim as the specification states it fails for a model whose party attention is
  \<^verbatim>\<open>'general'\<close>: with \<^verbatim>\<open>att2\<close> set, the head receives the concatenated emotion vectors
  themselves, and the extra attention pass is not applied.
\<close>

theorem Model_att2_without_simple_counterexample:
  "Model_emotions model_party [[[5]], [[6]]] [[[1, 0]], [[1, 0]]] (Some [[1, 1]]) =
     Inr ([[[1 / 4, 1 / 4, 3 / 8, 3 / 8]], [[3 / 8, 3 / 8, 1 / 4, 1 / 4]]],
          [[[1 / 4, 1 / 4, 1 / 4, 1 / 4]], [[3 / 8, 3 / 8, 3 / 8, 3 / 8]]])
   \<and> Model_hidden_input model_party [[[5]], [[6]]] [[[1, 0]], [[1, 0]]] (Some [[1, 1]]) True =
     Inr ([[[1 / 4, 1 / 4, 3 / 8, 3 / 8]], [[3 / 8, 3 / 8, 1 / 4, 1 / 4]]],
          [[[1 / 4, 1 / 4, 1 / 4, 1 / 4]], [[3 / 8, 3 / 8, 3 / 8, 3 / 8]]])
   \<and> Model_forward model_party [[[5]], [[6]]] [[[1, 0]], [[1, 0]]] (Some [[1, 1]]) True =
     Inr (Model_head model_party [[[1 / 4, 1 / 4, 3 / 8, 3 / 8]], [[3 / 8, 3 / 8, 1 / 4, 1 / 4]]],
          [[[1 / 4, 1 / 4, 1 / 4, 1 / 4]], [[3 / 8, 3 / 8, 3 / 8, 3 / 8]]])"
  by (simp add: Model_forward_def model_party_hidden_input model_party_emotions bind_err_def)

lemma cat_last_wide:
  assumes "list_all (list_all (\<lambda>r. length r = d1)) A" and "list_all (list_all (\<lambda>r. length r = d2)) B"
  shows "list_all (list_all (\<lambda>r. length r = d1 + d2)) (cat_last A B)"
  unfolding cat_last_def list_all_iff
proof (intro ballI)
  fix rows r assume "rows \<in> set (map2 (map2 (@)) A B)" and r: "r \<in> set rows"
  then obtain a b where ab: "(a, b) \<in> set (zip A B)" and rows: "rows = map2 (@) a b" by auto
  from r rows obtain x y where xy: "(x, y) \<in> set (zip a b)" and rr: "r = x @ y" by auto
  from ab have "a \<in> set A" "b \<in> set B" by (auto dest: set_zip_leftD set_zip_rightD)
  moreover from xy have "x \<in> set a" "y \<in> set b" by (auto dest: set_zip_leftD set_zip_rightD)
  ultimately have "length x = d1" "length y = d2" using assms by (auto simp: list_all_iff)
  with rr show "length r = d1 + d2" by simp
qed

lemma runner_second_output:
  assumes "DialogueRNN_forward cell U qmask = Inr (es, cs, alphas)"
    and "emotion_layers_contract cell"
  shows "cs = es \<and> length cs = min (length U) (length qmask)
       \<and> list_all (list_all (\<lambda>r. length r = D_e cell)) cs"
proof -
  from assms(1) have l: "DialogueRNN_loop cell 0 (zip U qmask) [] (E2 []) = Inr (es, cs, alphas)"
    by (auto simp: DialogueRNN_forward_def bind_err_Inr_iff split: if_splits)
  have w: "wide (D_e cell) (E2 [])" by (simp add: wide_def)
  from loop_outputs [OF l] loop_wide [OF l w assms(2)] show ?thesis by simp
qed

lemma Model_forward_runs:
  assumes "Model_forward m U qmask umask att2 = Inr (log_prob, c)"
  shows "\<exists>ef cf af um rev_U rev_q eb cb ab.
           DialogueRNN_forward (dialog_rnn_f m) U qmask = Inr (ef, cf, af) \<and> umask = Some um
         \<and> reverse_seq U um = Inr rev_U \<and> reverse_seq qmask um = Inr rev_q
         \<and> DialogueRNN_forward (dialog_rnn_b m) rev_U rev_q = Inr (eb, cb, ab)
         \<and> c = cat_last cf cb"
  using assms
  by (auto simp: Model_forward_def Model_hidden_input_def Model_emotions_def bind_err_Inr_iff
      split: option.splits)


text \<open>
  Claim C1, as the source has it. The second tensor that the sequence runner returns is
  the stack of the emotion rows of the active speakers, the same as its first result,
  with one entry for every timestep and rows of the emotion width \<open>D_e\<close>; the global
  context vectors are not returned. Accordingly the second result of the model is the
  concatenation of the forward and the backward emotion outputs, of width \<open>2 * D_e\<close>.
  The widths hold for recurrent and dropout layers that keep the library's contract.
\<close>

theorem second_output_holds_emotion_vectors:
  "(DialogueRNN_forward cell U qmask = Inr (es, cs, alphas) \<and> emotion_layers_contract cell \<longrightarrow>
      cs = es \<and> length cs = min (length U) (length qmask)
      \<and> list_all (list_all (\<lambda>r. length r = D_e cell)) cs)
   \<and> (Model_forward m U' qmask' umask att2 = Inr (log_prob, c)
      \<and> emotion_layers_contract (dialog_rnn_f m) \<and> emotion_layers_contract (dialog_rnn_b m)
      \<and> D_e (dialog_rnn_b m) = D_e (dialog_rnn_f m) \<longrightarrow>
      (\<exists>ef af um rev_U rev_q eb ab.
           DialogueRNN_forward (dialog_rnn_f m) U' qmask' = Inr (ef, ef, af) \<and> umask = Some um
         \<and> reverse_seq U' um = Inr rev_U \<and> reverse_seq qmask' um = Inr rev_q
         \<and> DialogueRNN_forward (dialog_rnn_b m) rev_U rev_q = Inr (eb, eb, ab)
         \<and> c = cat_last ef eb)
      \<and> list_all (list_all (\<lambda>r. length r = 2 * D_e (dialog_rnn_f m))) c)"
proof (intro conjI impI)
  assume a: "DialogueRNN_forward cell U qmask = Inr (es, cs, alphas) \<and> emotion_layers_contract cell"
  then have r: "cs = es \<and> length cs = min (length U) (length qmask)
       \<and> list_all (list_all (\<lambda>r. length r = D_e cell)) cs"
    by (intro runner_second_output) simp_all
  from r show "cs = es" by blast
  from r show "length cs = min (length U) (length qmask)" by blast
  from r show "list_all (list_all (\<lambda>r. length r = D_e cell)) cs" by blast
next
  assume a: "Model_forward m U' qmask' umask att2 = Inr (log_prob, c)
      \<and> emotion_layers_contract (dialog_rnn_f m) \<and> emotion_layers_contract (dialog_rnn_b m)
      \<and> D_e (dialog_rnn_b m) = D_e (dialog_rnn_f m)"
  then obtain ef cf af um rev_U rev_q eb cb ab where
    f: "DialogueRNN_forward (dialog_rnn_f m) U' qmask' = Inr (ef, cf, af)" and um: "umask = Some um"
    and ru: "reverse_seq U' um = Inr rev_U" and rq: "reverse_seq qmask' um = Inr rev_q"
    and b: "DialogueRNN_forward (dialog_rnn_b m) rev_U rev_q = Inr (eb, cb, ab)"
    and c: "c = cat_last cf cb"
    using Model_forward_runs [of m U' qmask' umask att2 log_prob c] by auto
  from a have cfc: "emotion_layers_contract (dialog_rnn_f m)"
    and cbc: "emotion_layers_contract (dialog_rnn_b m)"
    and de: "D_e (dialog_rnn_b m) = D_e (dialog_rnn_f m)" by blast+
  note rf = runner_second_output [OF f cfc]
  note rb = runner_second_output [OF b cbc]
  from rf have cf: "cf = ef" by blast
  from rf have wf: "list_all (list_all (\<lambda>r. length r = D_e (dialog_rnn_f m))) cf" by blast
  from rb have cb: "cb = eb" by blast
  from rb have "list_all (list_all (\<lambda>r. length r = D_e (dialog_rnn_b m))) cb" by blast
  then have wb: "list_all (list_all (\<lambda>r. length r = D_e (dialog_rnn_f m))) cb"
    by (simp only: de)
  from f um ru rq b c cf cb
  show "\<exists>ef af um rev_U rev_q eb ab.
           DialogueRNN_forward (dialog_rnn_f m) U' qmask' = Inr (ef, ef, af) \<and> umask = Some um
         \<and> reverse_seq U' um = Inr rev_U \<and> reverse_seq qmask' um = Inr rev_q
         \<and> DialogueRNN_forward (dialog_rnn_b m) rev_U rev_q = Inr (eb, eb, ab)
         \<and> c = cat_last ef eb" by auto
  from cat_last_wide [OF wf wb] c
  show "list_all (list_all (\<lambda>r. length r = 2 * D_e (dialog_rnn_f m))) c"
    by (simp add: mult_2)
qed

lemma cell_plain_contract: "emotion_layers_contract cell_plain"
  by (simp add: emotion_layers_contract_def cell_plain_def GRUCell_half_def no_dropout_def)

lemma cell_party_contract: "emotion_layers_contract cell_party"
  by (simp add: emotion_layers_contract_def cell_party_def GRUCell_half_def no_dropout_def)

theorem second_output_holds_emotion_vectors_witness:
  "[[[1 / 4, 1 / 4]], [[3 / 8, 3 / 8]]] = [[[1 / 4 :: real, 1 / 4]], [[3 / 8, 3 / 8]]]
   \<and> length [[[1 / 4 :: real, 1 / 4]], [[3 / 8, 3 / 8]]] = min (length [[[5::real]], [[6]]]) (length [[[1::real, 0]], [[0, 1]]])
   \<and> list_all (list_all (\<lambda>r. length r = D_e cell_plain)) [[[1 / 4 :: real, 1 / 4]], [[3 / 8, 3 / 8]]]
   \<and> list_all (list_all (\<lambda>r. length r = 2 * D_e (dialog_rnn_f model_party)))
        [[[1 / 4 :: real, 1 / 4, 1 / 4, 1 / 4]], [[3 / 8, 3 / 8, 3 / 8, 3 / 8]]]"
proof -
  have r: "Model_forward model_party [[[5]], [[6]]] [[[1, 0]], [[1, 0]]] (Some [[1, 1]]) True =
      Inr (Model_head model_party [[[1 / 4, 1 / 4, 3 / 8, 3 / 8]], [[3 / 8, 3 / 8, 1 / 4, 1 / 4]]], [[[1 / 4, 1 / 4, 1 / 4, 1 / 4]], [[3 / 8, 3 / 8, 3 / 8, 3 / 8]]])"
    by (simp add: Model_forward_def model_party_hidden_input bind_err_def)
  have m: "emotion_layers_contract (dialog_rnn_f model_party)"
    "emotion_layers_contract (dialog_rnn_b model_party)"
    "D_e (dialog_rnn_b model_party) = D_e (dialog_rnn_f model_party)"
    by (simp_all add: model_party_def cell_party_contract)
  from second_output_holds_emotion_vectors [of cell_plain "[[[5]], [[6]]]" "[[[1, 0]], [[0, 1]]]"
      "[[[1 / 4, 1 / 4]], [[3 / 8, 3 / 8]]]" "[[[1 / 4, 1 / 4]], [[3 / 8, 3 / 8]]]" "[[[1]], [[1]]]" model_party
      "[[[5]], [[6]]]" "[[[1, 0]], [[1, 0]]]" "Some [[1, 1]]" True
      "Model_head model_party [[[1 / 4, 1 / 4, 3 / 8, 3 / 8]], [[3 / 8, 3 / 8, 1 / 4, 1 / 4]]]" "[[[1 / 4, 1 / 4, 1 / 4, 1 / 4]], [[3 / 8, 3 / 8, 3 / 8, 3 / 8]]]"]
    cell_plain_run cell_plain_contract r m
  show ?thesis by blast
qed

text \<open>
  The claim as the specification states it fails: for the cell without party attention
  the runner returns rows of width 2 as its second result, while the context vectors of
  the two steps have width \<open>D_g = 1\<close>.
\<close>

theorem second_output_is_not_context_counterexample:
  "DialogueRNN_forward cell_plain [[[5]], [[6]]] [[[1, 0]], [[0, 1]]] =
     Inr ([[[1 / 4, 1 / 4]], [[3 / 8, 3 / 8]]], [[[1 / 4, 1 / 4]], [[3 / 8, 3 / 8]]], [[[1]], [[1]]])
   \<and> DialogueRNN_contexts cell_plain 0 [([[5]], [[1, 0]]), ([[6]], [[0, 1]])] [] (E2 []) =
     Inr [[[1 / 4]], [[1 / 4]]]
   \<and> D_g cell_plain = 1 \<and> D_e cell_plain = 2"
  using cell_plain_run cell_plain_contexts by (simp add: cell_plain_def)

section \<open>Properties of the reversal\<close>

lemma nth_le_max_len: "b < length xfs \<Longrightarrow> length (xfs ! b) \<le> max_len xfs"
  unfolding max_len_def
proof (induction xfs arbitrary: b)
  case Nil
  then show ?case by simp
next
  case (Cons x xs)
  then show ?case by (cases b) (auto simp: max.coboundedI2)
qed

lemma transpose01_nth:
  assumes "Y \<noteq> []" and "b < length (hd Y)"
  shows "transpose01 Y ! b = map (\<lambda>Yt. Yt ! b) Y"
  using assms by (cases Y) (simp_all add: transpose01_def size1_def)

lemma take_pad_row:
  "n = length xf \<Longrightarrow> n \<le> M \<Longrightarrow>
   take n (map (\<lambda>t. if t < length xf then xf ! t else z) [0..<M]) = xf"
  by (rule nth_equalityI) simp_all

lemma padded_row:
  assumes "pad_sequence d xfs = Inr Y" and "b < length xfs" and "0 < max_len xfs"
  shows "transpose01 Y ! b =
         map (\<lambda>t. if t < length (xfs ! b) then xfs ! b ! t else replicate d 0) [0..<max_len xfs]"
    and "size1 Y = length xfs"
proof -
  let ?f = "\<lambda>t. map (\<lambda>xf. if t < length xf then xf ! t else replicate d 0) xfs"
  from assms(1) have Y: "Y = map ?f [0..<max_len xfs]"
    by (auto simp: pad_sequence_def split: if_splits)
  with assms(3) have ne: "Y \<noteq> []" by simp
  have hdY: "hd Y = ?f 0"
    using assms(3) unfolding Y by (simp add: hd_map upt_conv_Cons)
  then have "length (hd Y) = length xfs" by simp
  then show "size1 Y = length xfs" using ne by (cases Y) (simp_all add: size1_def)
  have "transpose01 Y ! b = map (\<lambda>Yt. Yt ! b) Y"
    using ne assms(2) \<open>length (hd Y) = length xfs\<close> by (simp add: transpose01_nth)
  also have "\<dots> = map (\<lambda>t. if t < length (xfs ! b) then xfs ! b ! t else replicate d 0) [0..<max_len xfs]"
    unfolding Y using assms(2) by simp
  finally show "transpose01 Y ! b =
         map (\<lambda>t. if t < length (xfs ! b) then xfs ! b ! t else replicate d 0) [0..<max_len xfs]" .
qed


lemma reverse_seq_rows:
  assumes "X \<noteq> []" and "\<forall>Xt\<in>set X. length Xt = length msk" and "b < length msk"
    and "0 < mask_sum msk ! b"
  defines "xfs \<equiv> map (\<lambda>(x, c). rev (slice_to c x)) (zip (transpose01 X) (mask_sum msk))"
  shows "length xfs = length msk"
    and "xfs ! b = rev (take (nat (mask_sum msk ! b)) (map (\<lambda>Xt. Xt ! b) X))"
    and "reverse_seq X msk = pad_sequence (size2 X) xfs"
proof -
  have s1: "size1 X = length msk"
    using assms(1,2) by (cases X) (simp_all add: size1_def)
  then show len: "length xfs = length msk"
    by (simp add: xfs_def length_transpose01 mask_sum_def)
  have "hd X \<in> set X" using assms(1) by simp
  then have "b < length (hd X)" using assms(2,3) by simp
  then have "transpose01 X ! b = map (\<lambda>Xt. Xt ! b) X"
    using assms(1) by (simp add: transpose01_nth)
  then show "xfs ! b = rev (take (nat (mask_sum msk ! b)) (map (\<lambda>Xt. Xt ! b) X))"
    using assms(3,4) s1 by (simp add: xfs_def length_transpose01 mask_sum_def slice_to_def)
  show "reverse_seq X msk = pad_sequence (size2 X) xfs"
    by (simp add: reverse_seq_def xfs_def)
qed

text \<open>
  Claim C8. For a padded batch sequence and a mask whose valid lengths do not exceed the
  sequence length, reversing twice with the same mask succeeds and gives back the entry of
  the original at every valid position \<open>t\<close> of every batch row \<open>b\<close>.
\<close>

theorem reverse_seq_twice_restores_valid_positions:
  assumes "\<forall>Xt\<in>set X. length Xt = length msk"
    and "\<forall>b<length msk. mask_sum msk ! b \<le> int (length X)"
    and "b < length msk" and "int t < mask_sum msk ! b"
  shows "\<exists>Y Z. reverse_seq X msk = Inr Y \<and> reverse_seq Y msk = Inr Z \<and> Z ! t ! b = X ! t ! b"
proof -
  define c where "c = nat (mask_sum msk ! b)"
  have cpos: "0 < mask_sum msk ! b" and tc: "t < c"
    using assms(4) by (simp_all add: c_def)
  have "mask_sum msk ! b \<le> int (length X)" using assms(2,3) by blast
  then have cL: "c \<le> length X" by (simp add: c_def)
  then have X: "X \<noteq> []" using tc by auto
  define xfs where "xfs = map (\<lambda>(x, c). rev (slice_to c x)) (zip (transpose01 X) (mask_sum msk))"
  note r1 = reverse_seq_rows [OF X assms(1,3) cpos, folded xfs_def c_def]
  have lb: "length (xfs ! b) = c" using cL by (simp add: r1(2))
  have M: "c \<le> max_len xfs"
    using nth_le_max_len [of b xfs] assms(3) lb r1(1) by simp
  have "xfs \<noteq> []" using r1(1) assms(3) by auto
  then obtain Y where Y: "pad_sequence (size2 X) xfs = Inr Y"
    by (simp add: pad_sequence_def)
  have bx: "b < length xfs" using assms(3) r1(1) by simp
  have Mpos: "0 < max_len xfs" using M tc by simp
  note p1 = padded_row [OF Y bx Mpos]
  have Yne: "Y \<noteq> []" using Y Mpos \<open>xfs \<noteq> []\<close> by (auto simp: pad_sequence_def)
  have Yshape: "\<forall>Yt\<in>set Y. length Yt = length msk"
    using Y \<open>xfs \<noteq> []\<close> r1(1) by (auto simp: pad_sequence_def)
  define xfs2 where "xfs2 = map (\<lambda>(x, c). rev (slice_to c x)) (zip (transpose01 Y) (mask_sum msk))"
  note r2 = reverse_seq_rows [OF Yne Yshape assms(3) cpos, folded xfs2_def c_def]
  have "map (\<lambda>Yt. Yt ! b) Y = transpose01 Y ! b"
    using Yne Yshape assms(3) by (simp add: transpose01_nth)
  then have "take c (map (\<lambda>Yt. Yt ! b) Y) = xfs ! b"
    using take_pad_row [of c "xfs ! b" "max_len xfs" "replicate (size2 X) 0"] lb M p1(1)
    by simp
  then have x2: "xfs2 ! b = take c (map (\<lambda>Xt. Xt ! b) X)"
    by (simp add: r2(2) r1(2))
  have "xfs2 \<noteq> []" using r2(1) assms(3) by auto
  then obtain Z where Z: "pad_sequence (size2 Y) xfs2 = Inr Z"
    by (simp add: pad_sequence_def)
  have lb2: "length (xfs2 ! b) = c" using cL by (simp add: x2)
  have bx2: "b < length xfs2" using assms(3) r2(1) by simp
  have M2: "t < max_len xfs2"
    using nth_le_max_len [OF bx2] lb2 tc by simp
  have "Z ! t ! b = xfs2 ! b ! t"
    using Z \<open>xfs2 \<noteq> []\<close> M2 bx2 lb2 tc by (auto simp: pad_sequence_def)
  also have "\<dots> = X ! t ! b"
    using tc cL by (simp add: x2)
  finally have "Z ! t ! b = X ! t ! b" .
  with Y Z r1(3) r2(3) show ?thesis by simp
qed

theorem reverse_seq_twice_restores_valid_positions_witness:
  "\<exists>Y Z. reverse_seq [[[1], [2]], [[3], [4]], [[5], [6]]] [[1, 1, 0], [1, 0, 0]] = Inr Y
     \<and> reverse_seq Y [[1, 1, 0], [1, 0, 0]] = Inr Z
     \<and> Z ! 1 ! 0 = [[[1], [2]], [[3], [4]], [[5], [6]]] ! 1 ! 0"
  by (rule reverse_seq_twice_restores_valid_positions)
     (simp_all add: mask_sum_def trunc_int_def less_Suc_eq)

section \<open>Properties of the masked loss\<close>







end
